theory Spec2Isabelle
  imports Complex_Main "HOL-Library.Sublist" "HOL-Library.AList" "HOL-Library.Multiset"
begin

section \<open>JavaScript primitives used by the client\<close>

text \<open>
  Strings are byte lists. \<open>s.startsWith(p)\<close>, \<open>s.includes(p)\<close> and
  \<open>s.substring(0, n)\<close> are defined here. \<open>s.toUpperCase()\<close> follows the Unicode case
  tables of the engine; the functions that call it take it as the parameter
  \<open>toUpperCase\<close>, and nothing is assumed of it. \<open>toUpperCase_ascii\<close> is its
  restriction to ASCII strings, on which every engine agrees; it serves to instantiate
  the parameter at concrete requests.
\<close>

definition startsWith :: "string \<Rightarrow> string \<Rightarrow> bool" where
  "startsWith s p = prefix p s"

fun includes_str :: "string \<Rightarrow> string \<Rightarrow> bool" where
  "includes_str [] p = (p = [])"
| "includes_str (c # cs) p = (prefix p (c # cs) \<or> includes_str cs p)"

definition substring0 :: "string \<Rightarrow> nat \<Rightarrow> string" where
  "substring0 s n = take n s"

definition toUpperCase_ascii_char :: "char \<Rightarrow> char" where
  "toUpperCase_ascii_char c =
     (if 97 \<le> (of_char c :: nat) \<and> (of_char c :: nat) \<le> 122
      then char_of ((of_char c :: nat) - 32) else c)"

definition toUpperCase_ascii :: "string \<Rightarrow> string" where
  "toUpperCase_ascii s = map toUpperCase_ascii_char s"

text \<open>Truthiness of a \<open>string | null | undefined\<close> value: absent and empty are falsy.\<close>

definition truthy :: "string option \<Rightarrow> bool" where
  "truthy t = (case t of None \<Rightarrow> False | Some s \<Rightarrow> s \<noteq> [])"

section \<open>HTTP client wrapper (src/lib/api.ts)\<close>

text \<open>
  \<open>HeadersInit\<close> has three shapes: a \<open>Headers\<close> instance (given by the entries its
  \<open>forEach\<close> visits), an array of pairs, and a plain object. The normalised
  \<open>Record<string, string>\<close> is a map from header name to value; a later assignment to
  the same name replaces the earlier one.
\<close>

datatype headers_init =
    HeadersInstance "(string \<times> string) list"
  | PairArray "(string \<times> string) list"
  | PlainObject "string \<rightharpoonup> string"

fun assign_all :: "(string \<times> string) list \<Rightarrow> (string \<rightharpoonup> string) \<Rightarrow> (string \<rightharpoonup> string)" where
  "assign_all [] h = h"
| "assign_all ((k, v) # kvs) h = assign_all kvs (h(k \<mapsto> v))"

fun normalizeHeaders :: "headers_init option \<Rightarrow> (string \<rightharpoonup> string)" where
  "normalizeHeaders None = Map.empty"
| "normalizeHeaders (Some (HeadersInstance es)) = assign_all es Map.empty"
| "normalizeHeaders (Some (PairArray es)) = assign_all es Map.empty"
| "normalizeHeaders (Some (PlainObject obj)) = Map.empty ++ obj"

record request_init =
  init_method :: "string option"
  init_headers :: "headers_init option"
  init_body :: "string option"

text \<open>
  The request handed to \<open>fetch\<close>. \<open>req_path\<close> is the \<open>url\<close> argument; \<open>fetch\<close>
  receives it behind the deployment constant \<open>API_BASE_URL\<close>. The spread
  \<open>...options\<close> carries method and body through unchanged.
\<close>

record request =
  req_path :: string
  req_method :: "string option"
  req_body :: "string option"
  req_credentials :: string
  req_headers :: "string \<rightharpoonup> string"

definition isApi :: "string \<Rightarrow> bool" where
  "isApi url = (startsWith url ''/api/'' \<and> \<not> startsWith url ''/api/auth/'')"

definition isMutation :: "(string \<Rightarrow> string) \<Rightarrow> request_init \<Rightarrow> bool" where
  "isMutation toUpperCase options =
     (toUpperCase (case init_method options of
                     None \<Rightarrow> ''GET''
                   | Some m \<Rightarrow> if m = [] then ''GET'' else m)
        \<in> set [''POST'', ''PUT'', ''PATCH'', ''DELETE''])"

definition fetchWithCreds_request ::
  "(string \<Rightarrow> string) \<Rightarrow> string \<Rightarrow> request_init \<Rightarrow> string option \<Rightarrow> request" where
  "fetchWithCreds_request toUpperCase url options csrfToken =
     (let headers = (normalizeHeaders (init_headers options))
                      (''Content-Type'' \<mapsto> ''application/json'');
          headers' = (if isApi url \<and> isMutation toUpperCase options \<and> truthy csrfToken
                      then headers(''X-CSRF-Token'' \<mapsto> the csrfToken)
                      else headers)
      in \<lparr> req_path = url,
           req_method = init_method options,
           req_body = init_body options,
           req_credentials = ''include'',
           req_headers = headers' \<rparr>)"

text \<open>
  The network is a function from the request to the status of the response. A thrown
  \<open>Error\<close> is \<open>Inl\<close> of its message.
\<close>

definition fetchWithCreds ::
  "(string \<Rightarrow> string) \<Rightarrow> (request \<Rightarrow> nat) \<Rightarrow> string \<Rightarrow> request_init \<Rightarrow> string option
     \<Rightarrow> string + nat" where
  "fetchWithCreds toUpperCase fetch url options csrfToken =
     (let status = fetch (fetchWithCreds_request toUpperCase url options csrfToken)
      in if status = 401 then Inl ''Unauthorized. Please log in again.'' else Inr status)"

definition response_ok :: "nat \<Rightarrow> bool" where
  "response_ok status = (200 \<le> status \<and> status \<le> 299)"

definition delete_init :: request_init where
  "delete_init = \<lparr> init_method = Some ''DELETE'', init_headers = None, init_body = None \<rparr>"

definition deleteCategory ::
  "(string \<Rightarrow> string) \<Rightarrow> (request \<Rightarrow> nat) \<Rightarrow> string option \<Rightarrow> string \<Rightarrow> string + bool" where
  "deleteCategory toUpperCase fetch csrfToken ident =
     (case fetchWithCreds toUpperCase fetch (''/api/categories/'' @ ident) delete_init csrfToken of
        Inl e \<Rightarrow> Inl e
      | Inr status \<Rightarrow>
          if \<not> response_ok status then Inl ''Failed to delete category'' else Inr True)"

definition deletePaymentMethod ::
  "(string \<Rightarrow> string) \<Rightarrow> (request \<Rightarrow> nat) \<Rightarrow> string option \<Rightarrow> string \<Rightarrow> string + bool" where
  "deletePaymentMethod toUpperCase fetch csrfToken ident =
     (case fetchWithCreds toUpperCase fetch (''/api/payment_methods/'' @ ident) delete_init csrfToken of
        Inl e \<Rightarrow> Inl e
      | Inr status \<Rightarrow>
          if \<not> response_ok status then Inl ''Failed to delete payment method'' else Inr True)"

definition deleteExpense ::
  "(string \<Rightarrow> string) \<Rightarrow> (request \<Rightarrow> nat) \<Rightarrow> string option \<Rightarrow> string \<Rightarrow> string + bool" where
  "deleteExpense toUpperCase fetch csrfToken ident =
     (case fetchWithCreds toUpperCase fetch (''/api/expenses/'' @ ident) delete_init csrfToken of
        Inl e \<Rightarrow> Inl e
      | Inr status \<Rightarrow>
          if \<not> response_ok status then Inl ''Failed to delete expense'' else Inr True)"

section \<open>Delete handlers of the list components\<close>

datatype toast = ToastError string | ToastWarning string | ToastSuccess string | ToastInfo string

text \<open>
  Toasts are raised on the one global toaster; every component state extends the record
  of the toasts shown so far. \<open>refreshes\<close> counts the calls of \<open>onRefresh\<close>.
\<close>

record toaster =
  toasts :: "toast list"

record list_ui = toaster +
  deleteError :: "string option"
  refreshes :: nat

text \<open>\<open>CategoryData\<close> and \<open>PaymentMethodData\<close>: the id is optional.\<close>

record named_data =
  data_id :: "string option"
  data_name :: string
  is_expense :: bool

definition categories_handleDelete ::
  "(string \<Rightarrow> string) \<Rightarrow> (request \<Rightarrow> nat) \<Rightarrow> string option \<Rightarrow> named_data option \<Rightarrow> list_ui
     \<Rightarrow> list_ui" where
  "categories_handleDelete toUpperCase fetch csrfToken categoryToDelete ui =
     (case categoryToDelete of
        None \<Rightarrow> ui
      | Some cat \<Rightarrow>
          if \<not> truthy (data_id cat) then ui\<lparr> deleteError := Some ''Invalid category ID'' \<rparr>
          else (case deleteCategory toUpperCase fetch csrfToken (the (data_id cat)) of
                  Inr _ \<Rightarrow>
                    ui\<lparr> toasts := toasts ui @ [ToastSuccess ''Category deleted successfully''],
                        refreshes := Suc (refreshes ui),
                        deleteError := None \<rparr>
                | Inl message \<Rightarrow>
                    if includes_str message ''409''
                    then ui\<lparr> deleteError := Some
                      ''Cannot delete this category because it's being used by existing expenses.'' \<rparr>
                    else ui\<lparr> deleteError := Some ''Failed to delete category'',
                             toasts := toasts ui @ [ToastError ''Failed to delete category''] \<rparr>))"

definition paymentMethods_handleDelete ::
  "(string \<Rightarrow> string) \<Rightarrow> (request \<Rightarrow> nat) \<Rightarrow> string option \<Rightarrow> named_data option \<Rightarrow> list_ui
     \<Rightarrow> list_ui" where
  "paymentMethods_handleDelete toUpperCase fetch csrfToken paymentMethodToDelete ui =
     (case paymentMethodToDelete of
        None \<Rightarrow> ui
      | Some pm \<Rightarrow>
          (case deletePaymentMethod toUpperCase fetch csrfToken
                  (case data_id pm of None \<Rightarrow> ''undefined'' | Some i \<Rightarrow> i) of
             Inr _ \<Rightarrow>
               ui\<lparr> toasts := toasts ui @ [ToastSuccess ''Payment method deleted successfully''],
                   refreshes := Suc (refreshes ui),
                   deleteError := None \<rparr>
           | Inl message \<Rightarrow>
               if includes_str message ''409''
               then ui\<lparr> deleteError := Some
                 ''Cannot delete this payment method because it's being used by existing expenses.'' \<rparr>
               else ui\<lparr> deleteError := Some ''Failed to delete payment method'',
                        toasts := toasts ui @ [ToastError ''Failed to delete payment method''] \<rparr>))"

text \<open>
  The expenses list has no \<open>deleteError\<close> state and no branch on the message: every
  failure raises the same toast. The dialog flags reset in its \<open>finally\<close> block are
  not part of the state here.
\<close>

definition expenses_handleDelete ::
  "(string \<Rightarrow> string) \<Rightarrow> (request \<Rightarrow> nat) \<Rightarrow> string option \<Rightarrow> string option \<Rightarrow> list_ui
     \<Rightarrow> list_ui" where
  "expenses_handleDelete toUpperCase fetch csrfToken expenseToDelete ui =
     (case expenseToDelete of
        None \<Rightarrow> ui
      | Some ident \<Rightarrow>
          (case deleteExpense toUpperCase fetch csrfToken ident of
             Inr _ \<Rightarrow>
               ui\<lparr> toasts := toasts ui @ [ToastSuccess ''Transaction deleted successfully''],
                   refreshes := Suc (refreshes ui) \<rparr>
           | Inl message \<Rightarrow>
               ui\<lparr> toasts := toasts ui @ [ToastError ''Failed to delete transaction''] \<rparr>))"

section \<open>Dates as the client computes them\<close>

text \<open>
  A time value is the number of milliseconds since 1970-01-01T00:00:00Z, an \<open>int\<close>;
  \<open>None\<close> stands for the invalid date (\<open>NaN\<close>). The definitions follow the
  abstract operations of ECMAScript: \<open>DayFromYear\<close>, \<open>MakeDay\<close>, \<open>MakeTime\<close>,
  \<open>MakeDate\<close>, and the inverse of \<open>MakeDay\<close> (year, month from 0, day of month)
  computed by \<open>civil_from_days\<close>.

  \<open>test_date_pattern\<close> is the regular expression test of the source: four digits,
  a hyphen, two digits, a hyphen, two digits, anchored at both ends. \<open>Date_parse\<close> is
  \<open>new Date(s).getTime()\<close> for the date-only form, which ECMAScript reads as UTC: a
  month outside 01..12 or a day outside 01..31 is invalid, and a day beyond the end of
  its month carries into the next month (as V8 does). \<open>Date_parse\<close> is \<open>None\<close> on
  every other string, and the code that normalises filters calls \<open>new Date\<close> only on
  strings that passed the pattern; where the code parses strings of any form, the
  parser is a parameter.

  The viewer's time zone is \<open>tza\<close>: the offset of local time from UTC, in milliseconds,
  at a given instant (\<open>- 18000000\<close> for UTC-05:00). \<open>getFullYear\<close>, \<open>getMonth\<close> and
  \<open>getDate\<close> read the local calendar date. \<open>Date_UTC\<close> maps the years 0..99 to
  1900..1999, as \<open>Date.UTC\<close> does; \<open>TimeClip\<close> is the identity on every value that
  is reachable from a four-digit year and is left out.
\<close>

definition isDigit :: "char \<Rightarrow> bool" where
  "isDigit c = (48 \<le> (of_char c :: nat) \<and> (of_char c :: nat) \<le> 57)"

definition test_date_pattern :: "string \<Rightarrow> bool" where
  "test_date_pattern s =
     (length s = 10 \<and> list_all isDigit (take 4 s) \<and> s ! 4 = CHR ''-''
      \<and> list_all isDigit (take 2 (drop 5 s)) \<and> s ! 7 = CHR ''-''
      \<and> list_all isDigit (drop 8 s))"

definition digits_value :: "string \<Rightarrow> int" where
  "digits_value s = foldl (\<lambda>acc c. 10 * acc + (int (of_char c) - 48)) 0 s"

definition msPerDay :: int where "msPerDay = 86400000"

definition DayFromYear :: "int \<Rightarrow> int" where
  "DayFromYear y = 365 * (y - 1970) + (y - 1969) div 4 - (y - 1901) div 100 + (y - 1601) div 400"

definition isLeapYear :: "int \<Rightarrow> bool" where
  "isLeapYear y = (y mod 4 = 0 \<and> (y mod 400 = 0 \<or> y mod 100 \<noteq> 0))"

definition daysBeforeMonth :: "int \<Rightarrow> nat \<Rightarrow> int" where
  "daysBeforeMonth y m =
     [0, 31, 59, 90, 120, 151, 181, 212, 243, 273, 304, 334] ! m
       + (if 2 \<le> m \<and> isLeapYear y then 1 else 0)"

definition MakeDay :: "int \<Rightarrow> int \<Rightarrow> int \<Rightarrow> int" where
  "MakeDay year month date =
     (let ym = year + month div 12; mn = nat (month mod 12)
      in DayFromYear ym + daysBeforeMonth ym mn + date - 1)"

definition MakeTime :: "int \<Rightarrow> int \<Rightarrow> int \<Rightarrow> int \<Rightarrow> int" where
  "MakeTime h m s ms = h * 3600000 + m * 60000 + s * 1000 + ms"

definition MakeDate :: "int \<Rightarrow> int \<Rightarrow> int" where
  "MakeDate day time = day * msPerDay + time"

definition civil_from_days :: "int \<Rightarrow> int \<times> int \<times> int" where
  "civil_from_days day =
     (let z = day + 719468;
          era = z div 146097;
          doe = z - era * 146097;
          yoe = (doe - doe div 1460 + doe div 36524 - doe div 146096) div 365;
          doy = doe - (365 * yoe + yoe div 4 - yoe div 100);
          mp = (5 * doy + 2) div 153;
          d = doy - (153 * mp + 2) div 5 + 1;
          m = (if mp < 10 then mp + 3 else mp - 9);
          y = yoe + era * 400 + (if m \<le> 2 then 1 else 0)
      in (y, m - 1, d))"

definition Date_parse :: "string \<Rightarrow> int option" where
  "Date_parse s =
     (if test_date_pattern s
      then (let y = digits_value (take 4 s);
                m = digits_value (take 2 (drop 5 s));
                d = digits_value (drop 8 s)
            in if 1 \<le> m \<and> m \<le> 12 \<and> 1 \<le> d \<and> d \<le> 31
               then Some (MakeDate (MakeDay y (m - 1) d) 0) else None)
      else None)"

definition getFullYear :: "(int \<Rightarrow> int) \<Rightarrow> int \<Rightarrow> int" where
  "getFullYear tza t = fst (civil_from_days ((t + tza t) div msPerDay))"
definition getMonth :: "(int \<Rightarrow> int) \<Rightarrow> int \<Rightarrow> int" where
  "getMonth tza t = fst (snd (civil_from_days ((t + tza t) div msPerDay)))"
definition getDate :: "(int \<Rightarrow> int) \<Rightarrow> int \<Rightarrow> int" where
  "getDate tza t = snd (snd (civil_from_days ((t + tza t) div msPerDay)))"

definition Date_UTC :: "int \<Rightarrow> int \<Rightarrow> int \<Rightarrow> int \<Rightarrow> int \<Rightarrow> int \<Rightarrow> int \<Rightarrow> int" where
  "Date_UTC y m d h mi s ms =
     (let yr = (if 0 \<le> y \<and> y \<le> 99 then 1900 + y else y)
      in MakeDate (MakeDay yr m d) (MakeTime h mi s ms))"

fun pad :: "nat \<Rightarrow> int \<Rightarrow> string" where
  "pad 0 n = []"
| "pad (Suc w) n = pad w (n div 10) @ [char_of (48 + n mod 10)]"

definition yearString :: "int \<Rightarrow> string" where
  "yearString y =
     (if 0 \<le> y \<and> y \<le> 9999 then pad 4 y
      else (if y < 0 then ''-'' else ''+'') @ pad 6 \<bar>y\<bar>)"

definition toISOString :: "int \<Rightarrow> string" where
  "toISOString t =
     (let (y, m, d) = civil_from_days (t div msPerDay);
          tod = t mod msPerDay
      in yearString y @ ''-'' @ pad 2 (m + 1) @ ''-'' @ pad 2 d @ ''T''
         @ pad 2 (tod div 3600000) @ '':'' @ pad 2 (tod div 60000 mod 60) @ '':''
         @ pad 2 (tod div 1000 mod 60) @ ''.'' @ pad 3 (tod mod 1000) @ ''Z'')"

function String_of_int :: "int \<Rightarrow> string" where
  "String_of_int n =
     (if n < 0 then ''-'' @ String_of_int (- n)
      else if n < 10 then [char_of (48 + n)]
      else String_of_int (n div 10) @ [char_of (48 + n mod 10)])"
  by pat_completeness auto
termination
  by (relation "measure (\<lambda>n. if n < 0 then nat (1 - 2 * n) else nat (2 * n))") auto

declare String_of_int.simps [simp del]

section \<open>Query construction of the resource clients (src/lib/api.ts)\<close>

text \<open>
  A filter object is the list of its entries in the order \<open>Object.entries\<close> visits
  them; \<open>None\<close> is \<open>undefined\<close>. A value is a string or a number (\<open>skip\<close>,
  \<open>limit\<close>). \<open>URLSearchParams\<close> is the list of the appended pairs, and
  \<open>URLSearchParams_toString\<close> its \<open>application/x-www-form-urlencoded\<close> form.
\<close>

datatype filter_value = StringValue string | NumberValue int

type_synonym expense_filters = "(string \<times> filter_value option) list"

fun String_of_value :: "filter_value \<Rightarrow> string" where
  "String_of_value (StringValue s) = s"
| "String_of_value (NumberValue n) = String_of_int n"

definition startOfDayUTC :: "(int \<Rightarrow> int) \<Rightarrow> int \<Rightarrow> string" where
  "startOfDayUTC tza t =
     toISOString (Date_UTC (getFullYear tza t) (getMonth tza t) (getDate tza t) 0 0 0 0)"

definition endOfDayUTC :: "(int \<Rightarrow> int) \<Rightarrow> int \<Rightarrow> string" where
  "endOfDayUTC tza t =
     toISOString (Date_UTC (getFullYear tza t) (getMonth tza t) (getDate tza t) 23 59 59 999)"

fun paramValue :: "(int \<Rightarrow> int) \<Rightarrow> string \<Rightarrow> filter_value \<Rightarrow> string" where
  "paramValue tza key (NumberValue n) = String_of_int n"
| "paramValue tza key (StringValue s) =
     (if (key = ''startDate'' \<or> key = ''endDate'') \<and> test_date_pattern s
      then (case Date_parse s of
              None \<Rightarrow> s
            | Some t \<Rightarrow> startOfDayUTC tza t)
      else s)"

fun getExpenses_params :: "(int \<Rightarrow> int) \<Rightarrow> expense_filters \<Rightarrow> (string \<times> string) list" where
  "getExpenses_params tza [] = []"
| "getExpenses_params tza ((key, None) # filters) = getExpenses_params tza filters"
| "getExpenses_params tza ((key, Some v) # filters) =
     (key, paramValue tza key v) # getExpenses_params tza filters"

definition getAverageCategorySpend_params ::
  "(int \<Rightarrow> int) \<Rightarrow> string \<Rightarrow> string \<Rightarrow> (string \<times> string) list" where
  "getAverageCategorySpend_params tza startDate endDate =
     (let isoStartDate =
            (if test_date_pattern startDate
             then (case Date_parse startDate of
                     None \<Rightarrow> startDate
                   | Some t \<Rightarrow> startOfDayUTC tza t)
             else startDate);
          isoEndDate =
            (if test_date_pattern endDate
             then (case Date_parse endDate of
                     None \<Rightarrow> endDate
                   | Some t \<Rightarrow> endOfDayUTC tza t)
             else endDate)
      in [(''startDate'', isoStartDate), (''endDate'', isoEndDate)])"

definition hexDigit :: "nat \<Rightarrow> char" where
  "hexDigit n = (if n < 10 then char_of (48 + n) else char_of (55 + n))"

definition urlencode_byte :: "char \<Rightarrow> string" where
  "urlencode_byte c =
     (let n = (of_char c :: nat)
      in if (48 \<le> n \<and> n \<le> 57) \<or> (65 \<le> n \<and> n \<le> 90) \<or> (97 \<le> n \<and> n \<le> 122)
            \<or> c \<in> set ''*-._''
         then [c]
         else if c = CHR '' '' then ''+''
         else [CHR ''%'', hexDigit (n div 16), hexDigit (n mod 16)])"

definition urlencode :: "string \<Rightarrow> string" where
  "urlencode s = concat (map urlencode_byte s)"

fun URLSearchParams_toString :: "(string \<times> string) list \<Rightarrow> string" where
  "URLSearchParams_toString [] = []"
| "URLSearchParams_toString [(k, v)] = urlencode k @ ''='' @ urlencode v"
| "URLSearchParams_toString ((k, v) # p # ps) =
     urlencode k @ ''='' @ urlencode v @ ''&'' @ URLSearchParams_toString (p # ps)"

definition getExpenses_url :: "(int \<Rightarrow> int) \<Rightarrow> expense_filters \<Rightarrow> string" where
  "getExpenses_url tza filters =
     ''/api/expenses?'' @ URLSearchParams_toString (getExpenses_params tza filters)"

definition getAverageCategorySpend_url :: "(int \<Rightarrow> int) \<Rightarrow> string \<Rightarrow> string \<Rightarrow> string" where
  "getAverageCategorySpend_url tza startDate endDate =
     ''/api/analytics/average-spend?''
       @ URLSearchParams_toString (getAverageCategorySpend_params tza startDate endDate)"

section \<open>Expenses and the aggregation engine (analytics-page.tsx)\<close>

text \<open>
  Of an \<open>Expense\<close> the aggregation reads four fields. An absent string is the empty
  string (both are falsy); an amount whose \<open>typeof\<close> is not \<open>number\<close> is
  \<open>NotNumber\<close>; a missing type is \<open>None\<close>.

  The numbers of the engine are the type parameter \<open>'n\<close>: a type with a zero, an
  addition, a subtraction and a linear order. Nothing is assumed of the addition or the
  subtraction (no associativity, no exactness), so the definitions and what is proved
  of them hold of the sums of IEEE doubles as the code computes them, one addition
  after the other, as they hold of exact arithmetic. \<open>NaN\<close>, which a JSON body cannot
  carry and which a sum of positive amounts does not produce, is not a value of
  \<open>'n\<close>.
\<close>

datatype expense_type = Need | Want | Investment | Income

datatype 'n amount_value = Amount 'n | NotNumber

record 'n expense =
  category_id :: string
  amount :: "'n amount_value"
  type :: "expense_type option"
  timestamp :: string

record category =
  cat_id :: string
  cat_name :: string

text \<open>
  \<open>Array.prototype.sort\<close> is stable. \<open>Array_sort le\<close> is the stable insertion sort
  for a comparator, given as \<open>le a b\<close>: the comparator's result on \<open>(a, b)\<close> is not
  positive (a \<open>NaN\<close> result counts as \<open>0\<close>). For a consistent comparator every
  stable sort returns this list; for an inconsistent one ECMAScript leaves the order to
  the engine.
\<close>

fun insert_by :: "('a \<Rightarrow> 'a \<Rightarrow> bool) \<Rightarrow> 'a \<Rightarrow> 'a list \<Rightarrow> 'a list" where
  "insert_by le x [] = [x]"
| "insert_by le x (y # ys) = (if le x y then x # y # ys else y # insert_by le x ys)"

definition Array_sort :: "('a \<Rightarrow> 'a \<Rightarrow> bool) \<Rightarrow> 'a list \<Rightarrow> 'a list" where
  "Array_sort le xs = foldr (insert_by le) xs []"

text \<open>
  A \<open>Map\<close> keeps its keys in insertion order and \<open>set\<close> on a present key keeps the
  key's place: an association list under \<open>AList.update\<close>, read by \<open>map_of\<close>.
\<close>

record 'n slice =
  name :: string
  value' :: 'n

definition spendingTypes :: "expense_type list" where
  "spendingTypes = [Need, Want]"

fun seedCategories ::
  "category list \<Rightarrow> (string \<times> ('n::zero) slice) list \<Rightarrow> (string \<times> 'n slice) list" where
  "seedCategories [] spendingMap = spendingMap"
| "seedCategories (cat # cats) spendingMap =
     seedCategories cats
       (if cat_id cat \<noteq> [] \<and> cat_name cat \<noteq> []
        then AList.update (cat_id cat) \<lparr> name = cat_name cat, value' = 0 \<rparr> spendingMap
        else spendingMap)"

definition addSpending ::
  "('n::{plus,zero,linorder}) expense \<Rightarrow> (string \<times> 'n slice) list \<Rightarrow> (string \<times> 'n slice) list" where
  "addSpending e spendingMap =
     (case amount e of
        NotNumber \<Rightarrow> spendingMap
      | Amount a \<Rightarrow>
          if category_id e = [] \<or> a \<le> 0 then spendingMap
          else if type e \<in> set (map Some spendingTypes)
          then (case map_of spendingMap (category_id e) of
                  Some categoryInfo \<Rightarrow>
                    AList.update (category_id e)
                      (categoryInfo\<lparr> value' := value' categoryInfo + a \<rparr>) spendingMap
                | None \<Rightarrow> spendingMap)
          else spendingMap)"

definition spendingMapOf ::
  "('n::{plus,zero,linorder}) expense list \<Rightarrow> category list \<Rightarrow> (string \<times> 'n slice) list" where
  "spendingMapOf allExpenses categories =
     foldl (\<lambda>m e. addSpending e m) (seedCategories categories []) allExpenses"

definition categorySpendingData ::
  "('n::{plus,minus,zero,linorder}) expense list \<Rightarrow> category list \<Rightarrow> 'n slice list" where
  "categorySpendingData allExpenses categories =
     (if allExpenses = [] \<or> categories = [] then []
      else Array_sort (\<lambda>a b. value' b - value' a \<le> 0)
             (filter (\<lambda>item. 0 < value' item)
                (map snd (spendingMapOf allExpenses categories))))"

definition totalSpending :: "('n::{plus,zero}) slice list \<Rightarrow> 'n" where
  "totalSpending data = foldl (\<lambda>sum entry. sum + value' entry) 0 data"

record 'n trend_point =
  date :: string
  totalAmount :: 'n

definition addDaily ::
  "('n::{plus,zero,linorder}) expense \<Rightarrow> (string \<times> 'n) list \<Rightarrow> (string \<times> 'n) list" where
  "addDaily e dailySpendingMap =
     (case amount e of
        NotNumber \<Rightarrow> dailySpendingMap
      | Amount a \<Rightarrow>
          if timestamp e = [] \<or> a \<le> 0 \<or> type e = None then dailySpendingMap
          else if type e \<in> set (map Some spendingTypes)
          then (let dateStr = substring0 (timestamp e) 10
                in AList.update dateStr
                     ((case map_of dailySpendingMap dateStr of None \<Rightarrow> 0 | Some v \<Rightarrow> v) + a)
                     dailySpendingMap)
          else dailySpendingMap)"

definition dailySpendingMapOf ::
  "('n::{plus,zero,linorder}) expense list \<Rightarrow> (string \<times> 'n) list" where
  "dailySpendingMapOf allExpenses = foldl (\<lambda>m e. addDaily e m) [] allExpenses"

text \<open>
  \<open>new Date(s)\<close> on an arbitrary string is the engine's parser: ECMAScript fixes it on
  its own date-time format and leaves every other string to the engine. The functions
  that call it on strings of any form take it as the parameter \<open>newDate\<close>, the time
  value of \<open>new Date(s)\<close> with \<open>None\<close> for an invalid date, and nothing is assumed of
  it. \<open>Date_parse\<close> is its restriction to the date-only form and serves to instantiate
  it at concrete dates.

  The comparator of the trend is the difference of the two time values; it is \<open>NaN\<close>
  when either date is invalid.
\<close>

definition date_le ::
  "(string \<Rightarrow> int option) \<Rightarrow> 'n trend_point \<Rightarrow> 'n trend_point \<Rightarrow> bool" where
  "date_le newDate a b =
     (case (newDate (date a), newDate (date b)) of
        (Some ta, Some tb) \<Rightarrow> ta - tb \<le> 0
      | _ \<Rightarrow> True)"

definition spendingTrendData ::
  "(string \<Rightarrow> int option) \<Rightarrow> ('n::{plus,zero,linorder}) expense list \<Rightarrow> 'n trend_point list" where
  "spendingTrendData newDate allExpenses =
     (if allExpenses = [] then []
      else Array_sort (date_le newDate)
             (map (\<lambda>(d, t). \<lparr> date = d, totalAmount = t \<rparr>) (dailySpendingMapOf allExpenses)))"

section \<open>The full-range fetch (analytics-page.tsx)\<close>

text \<open>
  An awaited \<open>getExpenses(filters)\<close> either throws (a network error, a status that is
  not OK, 401) or returns the parsed body: a bare array, an object whose \<open>items\<close> is an
  array, or anything else.
\<close>

datatype 'n api_body = BareArray "'n expense list" | ItemsObject "'n expense list" | Unexpected

datatype 'n page_result = Throws | Returns "'n api_body"

fun expensesToAdd :: "'n api_body \<Rightarrow> 'n expense list option" where
  "expensesToAdd (BareArray xs) = Some xs"
| "expensesToAdd (ItemsObject xs) = Some xs"
| "expensesToAdd Unexpected = None"

definition DATA_FETCH_LIMIT :: int where
  "DATA_FETCH_LIMIT = 500"

record 'n analytics_ui = toaster +
  allExpenses :: "'n expense list"
  isLoading :: bool

text \<open>
  The state of the loop. \<open>calls\<close> is the trace of the filters passed to
  \<open>getExpenses\<close>, in the order of the calls.
\<close>

record 'n fetch_state =
  fetchedExpenses :: "'n expense list"
  currentSkip :: int
  hasMore :: bool
  ui :: "'n analytics_ui"
  calls :: "expense_filters list"

definition pageFilters :: "string \<Rightarrow> string \<Rightarrow> int \<Rightarrow> expense_filters" where
  "pageFilters start end' skip =
     [(''startDate'', Some (StringValue start)),
      (''endDate'', Some (StringValue end')),
      (''skip'', Some (NumberValue skip)),
      (''limit'', Some (NumberValue DATA_FETCH_LIMIT))]"

definition onUnexpected :: "'n fetch_state \<Rightarrow> 'n fetch_state" where
  "onUnexpected st =
     st\<lparr> hasMore := False,
         ui := (if currentSkip st = 0
                then (ui st)\<lparr> allExpenses := [],
                       toasts := toasts (ui st) @
                         [ToastError ''Failed to fetch expenses. Unexpected data format from server.''] \<rparr>
                else (ui st)\<lparr> toasts := toasts (ui st) @
                         [ToastWarning
                           ''Received unexpected data format on subsequent fetch page. Data might be incomplete.''] \<rparr>) \<rparr>"

definition onPage :: "'n expense list \<Rightarrow> 'n fetch_state \<Rightarrow> 'n fetch_state" where
  "onPage page st =
     (if int (length page) < DATA_FETCH_LIMIT
      then st\<lparr> fetchedExpenses := fetchedExpenses st @ page, hasMore := False \<rparr>
      else st\<lparr> fetchedExpenses := fetchedExpenses st @ page,
               currentSkip := currentSkip st + DATA_FETCH_LIMIT \<rparr>)"

text \<open>
  The \<open>while (hasMore)\<close> loop. The result is the final state and whether the loop was
  left by an exception; \<open>None\<close> is a loop that never ends (a server whose every page
  is full).
\<close>

partial_function (option) fetchLoop ::
  "(expense_filters \<Rightarrow> 'n page_result) \<Rightarrow> string \<Rightarrow> string \<Rightarrow> 'n fetch_state
     \<Rightarrow> ('n fetch_state \<times> bool) option" where
  "fetchLoop getExpenses start end' st =
     (if \<not> hasMore st then Some (st, False)
      else (case getExpenses (pageFilters start end' (currentSkip st)) of
              Throws \<Rightarrow>
                Some (st\<lparr> calls := calls st @ [pageFilters start end' (currentSkip st)] \<rparr>, True)
            | Returns response \<Rightarrow>
                (case expensesToAdd response of
                   None \<Rightarrow>
                     fetchLoop getExpenses start end'
                       (onUnexpected
                          (st\<lparr> calls := calls st @ [pageFilters start end' (currentSkip st)] \<rparr>))
                 | Some page \<Rightarrow>
                     fetchLoop getExpenses start end'
                       (onPage page
                          (st\<lparr> calls := calls st @ [pageFilters start end' (currentSkip st)] \<rparr>)))))"

text \<open>
  \<open>new Date(start) > new Date(end)\<close> compares the two time values of the engine's
  parser \<open>newDate\<close>; a comparison with an invalid date is false.
\<close>

definition invalidRange :: "(string \<Rightarrow> int option) \<Rightarrow> string \<Rightarrow> string \<Rightarrow> bool" where
  "invalidRange newDate start end' =
     (start = [] \<or> end' = [] \<or>
      (case (newDate start, newDate end') of
         (Some s, Some e) \<Rightarrow> e < s
       | _ \<Rightarrow> False))"

definition afterLoop :: "'n fetch_state \<Rightarrow> 'n analytics_ui" where
  "afterLoop st =
     (let u = (ui st)\<lparr> allExpenses := fetchedExpenses st \<rparr>
      in if fetchedExpenses st \<noteq> []
         then u\<lparr> toasts := toasts u @
                [ToastSuccess (''Workspaceed '' @ String_of_int (int (length (fetchedExpenses st)))
                                 @ '' expenses.'')] \<rparr>
         else if \<not> hasMore st \<and> currentSkip st = 0
         then u\<lparr> toasts := toasts u @ [ToastInfo ''No expenses found for the selected period.''] \<rparr>
         else u)"

definition afterThrow :: "'n fetch_state \<Rightarrow> 'n analytics_ui" where
  "afterThrow st =
     (ui st)\<lparr> toasts := toasts (ui st) @ [ToastError ''Failed to fetch expenses for the report.''],
              allExpenses := [] \<rparr>"

definition fetchAllExpensesForRange ::
  "(string \<Rightarrow> int option) \<Rightarrow> (expense_filters \<Rightarrow> 'n page_result) \<Rightarrow> string \<Rightarrow> string
     \<Rightarrow> 'n analytics_ui \<Rightarrow> (expense_filters list \<times> 'n analytics_ui) option" where
  "fetchAllExpensesForRange newDate getExpenses start end' u =
     (if invalidRange newDate start end'
      then Some ([], u\<lparr> toasts := toasts u @ [ToastError ''Invalid date range selected.''] \<rparr>)
      else (case fetchLoop getExpenses start end'
                   \<lparr> fetchedExpenses = [], currentSkip = 0, hasMore = True,
                     ui = u\<lparr> isLoading := True \<rparr>, calls = [] \<rparr> of
              None \<Rightarrow> None
            | Some (st, thrown) \<Rightarrow>
                Some (calls st,
                      (if thrown then afterThrow st else afterLoop st)\<lparr> isLoading := False \<rparr>)))"

section \<open>Properties of the HTTP client wrapper\<close>

lemma isMutation_set:
  "isMutation toUpperCase options =
     (toUpperCase (case init_method options of
                     None \<Rightarrow> ''GET''
                   | Some m \<Rightarrow> if m = [] then ''GET'' else m)
        \<in> {''POST'', ''PUT'', ''PATCH'', ''DELETE''})"
  by (simp add: isMutation_def)

lemma toUpperCase_ascii_POST: "toUpperCase_ascii ''POST'' = ''POST''"
  by (simp add: toUpperCase_ascii_def toUpperCase_ascii_char_def)

lemma csrf_header_general:
  "req_headers (fetchWithCreds_request toUpperCase url options csrfToken) ''X-CSRF-Token'' =
     (if prefix ''/api/'' url \<and> \<not> prefix ''/api/auth/'' url
         \<and> toUpperCase (case init_method options of
                          None \<Rightarrow> ''GET''
                        | Some m \<Rightarrow> if m = [] then ''GET'' else m)
             \<in> {''POST'', ''PUT'', ''PATCH'', ''DELETE''}
         \<and> (\<exists>t. csrfToken = Some t \<and> t \<noteq> [])
      then csrfToken
      else normalizeHeaders (init_headers options) ''X-CSRF-Token'')"
  by (cases csrfToken)
     (auto simp: fetchWithCreds_request_def isApi_def startsWith_def isMutation_set truthy_def
        Let_def)

text \<open>
  C7, as the code has it. For every upper-casing function of the engine, the wrapper
  sets \<open>X-CSRF-Token\<close> to the supplied token exactly when the path is under \<open>/api/\<close>
  and not under \<open>/api/auth/\<close>, the upper-cased method (\<open>GET\<close> when absent) is one of
  POST, PUT, PATCH, DELETE, and the token is present and not empty. In every other case
  it adds nothing and removes nothing: the entry is what the caller's own headers hold
  under that name, which is nothing when the caller supplied no headers. A POST to
  \<open>/api/categories\<close> with a token carries the token, whatever the caller's headers; a
  POST to \<open>/api/auth/login\<close> carries exactly the caller's own entry, whatever the token.
\<close>

theorem csrf_header_set_by_wrapper_iff:
  "req_headers (fetchWithCreds_request toUpperCase url options csrfToken) ''X-CSRF-Token'' =
     (if prefix ''/api/'' url \<and> \<not> prefix ''/api/auth/'' url
         \<and> toUpperCase (case init_method options of
                          None \<Rightarrow> ''GET''
                        | Some m \<Rightarrow> if m = [] then ''GET'' else m)
             \<in> {''POST'', ''PUT'', ''PATCH'', ''DELETE''}
         \<and> (\<exists>t. csrfToken = Some t \<and> t \<noteq> [])
      then csrfToken
      else normalizeHeaders (init_headers options) ''X-CSRF-Token'')
   \<and> normalizeHeaders None ''X-CSRF-Token'' = None
   \<and> (toUpperCase ''POST'' = ''POST'' \<longrightarrow>
        req_headers (fetchWithCreds_request toUpperCase ''/api/categories''
          \<lparr> init_method = Some ''POST'', init_headers = hs, init_body = b \<rparr> (Some (c # cs)))
        ''X-CSRF-Token'' = Some (c # cs))
   \<and> req_headers (fetchWithCreds_request toUpperCase ''/api/auth/login''
         \<lparr> init_method = Some ''POST'', init_headers = hs, init_body = b \<rparr> tok)
       ''X-CSRF-Token'' = normalizeHeaders hs ''X-CSRF-Token''"
  by (simp add: csrf_header_general)

theorem csrf_header_set_by_wrapper_iff_witness:
  "toUpperCase_ascii ''POST'' = ''POST''
   \<and> req_headers (fetchWithCreds_request toUpperCase_ascii ''/api/categories''
         \<lparr> init_method = Some ''POST'', init_headers = None, init_body = Some ''{}'' \<rparr>
         (Some ''tok''))
       ''X-CSRF-Token'' = Some ''tok''
   \<and> req_headers (fetchWithCreds_request toUpperCase_ascii ''/api/auth/login''
         \<lparr> init_method = Some ''POST'', init_headers = None, init_body = Some ''{}'' \<rparr>
         (Some ''tok''))
       ''X-CSRF-Token'' = None"
  using csrf_header_set_by_wrapper_iff
          [of toUpperCase_ascii "''/api/categories''"
              "\<lparr> init_method = Some ''POST'', init_headers = None, init_body = Some ''{}'' \<rparr>"
              "Some ''tok''" None "Some ''{}''" "CHR ''t''" "''ok''" "Some ''tok''"]
        toUpperCase_ascii_POST
  by simp

text \<open>
  C7 as stated fails: a POST to \<open>/api/auth/login\<close> whose caller put an
  \<open>X-CSRF-Token\<close> of its own into the options goes out with that header, and so does a
  GET to \<open>/api/categories\<close>, though neither meets the three conditions.
\<close>

theorem csrf_header_of_caller_passes_through:
  "req_headers (fetchWithCreds_request toUpperCase_ascii ''/api/auth/login''
       \<lparr> init_method = Some ''POST'',
         init_headers = Some (PlainObject [''X-CSRF-Token'' \<mapsto> ''from-caller'']),
         init_body = None \<rparr> (Some ''tok''))
     ''X-CSRF-Token'' = Some ''from-caller''
   \<and> req_headers (fetchWithCreds_request toUpperCase_ascii ''/api/categories''
       \<lparr> init_method = Some ''GET'',
         init_headers = Some (PairArray [(''X-CSRF-Token'', ''from-caller'')]),
         init_body = None \<rparr> None)
     ''X-CSRF-Token'' = Some ''from-caller''"
  by (simp add: fetchWithCreds_request_def isApi_def startsWith_def isMutation_def
        toUpperCase_ascii_def toUpperCase_ascii_char_def truthy_def)

text \<open>
  C8, as the code has it. The wrapper assigns \<open>Content-Type: application/json\<close> after
  it has copied the caller's headers, so the outgoing record holds that value under
  \<open>Content-Type\<close> for every call, whatever the caller supplied under that name.
\<close>

theorem content_type_always_json:
  "req_headers (fetchWithCreds_request toUpperCase url options csrfToken) ''Content-Type''
     = Some ''application/json''"
  by (simp add: fetchWithCreds_request_def Let_def)

text \<open>
  C8 as stated fails: a caller that supplies \<open>Content-Type: text/plain\<close> does not
  find its value in the outgoing headers.
\<close>

theorem content_type_caller_value_overwritten:
  "normalizeHeaders (Some (PlainObject [''Content-Type'' \<mapsto> ''text/plain''])) ''Content-Type''
     = Some ''text/plain''
   \<and> req_headers (fetchWithCreds_request toUpperCase_ascii ''/api/categories''
         \<lparr> init_method = Some ''POST'',
           init_headers = Some (PlainObject [''Content-Type'' \<mapsto> ''text/plain'']),
           init_body = None \<rparr> None) ''Content-Type''
     \<noteq> Some ''text/plain''"
  by (simp add: fetchWithCreds_request_def Let_def)

section \<open>Properties of the delete path\<close>

lemma thrown_messages_lack_status:
  "\<not> includes_str ''Unauthorized. Please log in again.'' ''409''"
  "\<not> includes_str ''Failed to delete category'' ''409''"
  "\<not> includes_str ''Failed to delete payment method'' ''409''"
  by simp_all

text \<open>
  C4 at the status 409. The message thrown by each delete call is fixed and does not
  contain the status, so the handlers' test for \<open>409\<close> in the message fails: the
  category and payment-method handlers report the generic failure, as the expenses
  handler does for every failure. No response at all leads a handler to its conflict
  message.
\<close>

theorem delete_conflict_reported_as_generic:
  "categories_handleDelete toUpperCase (\<lambda>_. 409) (Some ''tok'')
       (Some \<lparr> data_id = Some ''c1'', data_name = ''Food'', is_expense = True \<rparr>)
       \<lparr> toasts = [], deleteError = None, refreshes = 0 \<rparr>
     = \<lparr> toasts = [ToastError ''Failed to delete category''],
         deleteError = Some ''Failed to delete category'', refreshes = 0 \<rparr>
   \<and> paymentMethods_handleDelete toUpperCase (\<lambda>_. 409) (Some ''tok'')
       (Some \<lparr> data_id = Some ''p1'', data_name = ''Card'', is_expense = True \<rparr>)
       \<lparr> toasts = [], deleteError = None, refreshes = 0 \<rparr>
     = \<lparr> toasts = [ToastError ''Failed to delete payment method''],
         deleteError = Some ''Failed to delete payment method'', refreshes = 0 \<rparr>
   \<and> expenses_handleDelete toUpperCase (\<lambda>_. 409) (Some ''tok'') (Some ''e1'')
       \<lparr> toasts = [], deleteError = None, refreshes = 0 \<rparr>
     = \<lparr> toasts = [ToastError ''Failed to delete transaction''],
         deleteError = None, refreshes = 0 \<rparr>
   \<and> deleteError (categories_handleDelete toUpperCase fetch csrfToken (Some cat) u)
     \<noteq> Some ''Cannot delete this category because it's being used by existing expenses.''
   \<and> deleteError (paymentMethods_handleDelete toUpperCase fetch csrfToken (Some pm) u)
     \<noteq> Some ''Cannot delete this payment method because it's being used by existing expenses.''"
  by (simp add: categories_handleDelete_def paymentMethods_handleDelete_def
        expenses_handleDelete_def deleteCategory_def deletePaymentMethod_def deleteExpense_def
        fetchWithCreds_def response_ok_def truthy_def thrown_messages_lack_status Let_def)

section \<open>Properties of the query construction\<close>

text \<open>
  C1 at a viewer west of UTC. With local time five hours behind UTC, the date
  \<open>2024-01-15\<close> is parsed as midnight UTC, read back through the local calendar (the
  evening of the 14th) and rebuilt as a UTC date: the start boundary is midnight UTC of
  the 14th and the end boundary of the average-spend call is the last millisecond of the
  14th. At UTC itself the boundaries fall on the 15th.
\<close>

theorem date_boundaries_west_of_utc:
  "getExpenses_params (\<lambda>_. - 18000000) [(''startDate'', Some (StringValue ''2024-01-15''))]
     = [(''startDate'', ''2024-01-14T00:00:00.000Z'')]
   \<and> getAverageCategorySpend_params (\<lambda>_. - 18000000) ''2024-01-15'' ''2024-01-15''
     = [(''startDate'', ''2024-01-14T00:00:00.000Z''),
        (''endDate'', ''2024-01-14T23:59:59.999Z'')]
   \<and> getAverageCategorySpend_params (\<lambda>_. 0) ''2024-01-15'' ''2024-01-15''
     = [(''startDate'', ''2024-01-15T00:00:00.000Z''),
        (''endDate'', ''2024-01-15T23:59:59.999Z'')]"
  by code_simp

text \<open>
  A year below 100 passes through \<open>Date.UTC\<close> and comes back in the twentieth
  century, at any time zone.
\<close>

lemma two_digit_year_moves_to_1900s:
  "getExpenses_params (\<lambda>_. 0) [(''startDate'', Some (StringValue ''0050-06-15''))]
     = [(''startDate'', ''1950-06-15T00:00:00.000Z'')]"
  by code_simp

text \<open>East of UTC the local date is the parsed date and the boundaries are right.\<close>

lemma date_boundaries_east_of_utc:
  "getAverageCategorySpend_params (\<lambda>_. 19800000) ''2024-02-29'' ''2024-12-31''
     = [(''startDate'', ''2024-02-29T00:00:00.000Z''),
        (''endDate'', ''2024-12-31T23:59:59.999Z'')]"
  by code_simp







section \<open>Properties of the aggregation engine\<close>

subsection \<open>The sort\<close>

lemma mset_insert_by: "mset (insert_by le x xs) = add_mset x (mset xs)"
  by (induction xs) auto

lemma mset_Array_sort: "mset (Array_sort le xs) = mset xs"
  by (induction xs) (auto simp: Array_sort_def mset_insert_by)

lemma set_insert_by: "set (insert_by le x xs) = insert x (set xs)"
  by (metis mset_insert_by set_mset_add_mset_insert set_mset_mset)

lemma Array_sort_Cons: "Array_sort le (x # xs) = insert_by le x (Array_sort le xs)"
  by (simp add: Array_sort_def)

lemma Array_sort_cong:
  "(\<And>a b. a \<in> set xs \<Longrightarrow> b \<in> set xs \<Longrightarrow> le a b = le' a b)
     \<Longrightarrow> Array_sort le xs = Array_sort le' xs"
proof (induction xs)
  case Nil
  then show ?case by (simp add: Array_sort_def)
next
  case (Cons x xs)
  have same: "Array_sort le xs = Array_sort le' xs"
    using Cons by simp
  have sub: "set (Array_sort le' xs) = set xs"
    by (metis mset_Array_sort set_mset_mset)
  have "insert_by le x ys = insert_by le' x ys" if "set ys \<subseteq> set xs" for ys
    using that
  proof (induction ys)
    case Nil
    then show ?case by simp
  next
    case (Cons y ys)
    then have "le x y = le' x y"
      using Cons.prems \<open>\<And>a b. a \<in> set (x # xs) \<Longrightarrow> b \<in> set (x # xs) \<Longrightarrow> le a b = le' a b\<close>
      by simp
    with Cons show ?case by simp
  qed
  with same sub show ?case
    by (simp add: Array_sort_def)
qed

text \<open>A total and transitive comparator leaves the list sorted.\<close>

lemma sorted_insert_by:
  assumes total: "\<And>a b. le a b \<or> le b a"
    and trans: "\<And>a b c. le a b \<Longrightarrow> le b c \<Longrightarrow> le a c"
  shows "sorted_wrt le ys \<Longrightarrow> sorted_wrt le (insert_by le x ys)"
proof (induction ys)
  case Nil
  then show ?case by simp
next
  case (Cons y ys)
  show ?case
  proof (cases "le x y")
    case True
    with Cons.prems show ?thesis
      by (auto intro: trans)
  next
    case False
    then have "le y x"
      using total by blast
    with False Cons show ?thesis
      by (auto simp: set_insert_by)
  qed
qed

lemma sorted_Array_sort:
  assumes total: "\<And>a b. le a b \<or> le b a"
    and trans: "\<And>a b c. le a b \<Longrightarrow> le b c \<Longrightarrow> le a c"
  shows "sorted_wrt le (Array_sort le xs)"
proof (induction xs)
  case Nil
  then show ?case by (simp add: Array_sort_def)
next
  case (Cons x xs)
  then show ?case
    by (simp only: Array_sort_Cons sorted_insert_by [OF total trans])
qed

text \<open>Elements of equal key keep their order when equal keys compare as not greater.\<close>

lemma stable_insert_by:
  assumes equal: "\<And>a b. f a = f b \<Longrightarrow> le a b"
  shows "filter (\<lambda>y. f y = v) (insert_by le x ys) =
           (if f x = v then x # filter (\<lambda>y. f y = v) ys else filter (\<lambda>y. f y = v) ys)"
proof (induction ys)
  case Nil
  then show ?case by simp
next
  case (Cons y ys)
  show ?case
  proof (cases "le x y")
    case True
    then show ?thesis by simp
  next
    case False
    then have "f x \<noteq> f y"
      using equal by blast
    with False Cons show ?thesis by auto
  qed
qed

lemma stable_Array_sort:
  assumes equal: "\<And>a b. f a = f b \<Longrightarrow> le a b"
  shows "filter (\<lambda>y. f y = v) (Array_sort le xs) = filter (\<lambda>y. f y = v) xs"
proof (induction xs)
  case Nil
  then show ?case by (simp add: Array_sort_def)
next
  case (Cons x xs)
  then show ?case
    by (simp add: Array_sort_Cons stable_insert_by [of f le, OF equal])
qed

subsection \<open>The category map\<close>

lemma map_of_seedCategories:
  "map_of (seedCategories cs m) cid =
     (if filter (\<lambda>c. cat_id c = cid \<and> cat_id c \<noteq> [] \<and> cat_name c \<noteq> []) cs = []
      then map_of m cid
      else Some \<lparr> name = cat_name (last (filter
                          (\<lambda>c. cat_id c = cid \<and> cat_id c \<noteq> [] \<and> cat_name c \<noteq> []) cs)),
                  value' = 0 \<rparr>)"
  by (induction cs m rule: seedCategories.induct) (auto simp: update_conv')

lemma remdups_snoc: "remdups (xs @ [x]) = remdups (filter (\<lambda>y. y \<noteq> x) xs) @ [x]"
  by (induction xs) auto

lemma first_occurrences:
  "foldl (\<lambda>ks k. if k \<in> set ks then ks else ks @ [k]) ks xs
     = ks @ rev (remdups (rev (filter (\<lambda>x. x \<notin> set ks) xs)))"
proof (induction xs arbitrary: ks)
  case Nil
  then show ?case by simp
next
  case (Cons x xs)
  show ?case
  proof (cases "x \<in> set ks")
    case True
    then show ?thesis using Cons by simp
  next
    case False
    have "filter (\<lambda>y. y \<notin> set (ks @ [x])) xs
            = filter (\<lambda>y. y \<noteq> x) (filter (\<lambda>y. y \<notin> set ks) xs)"
      by (induction xs) auto
    then have "foldl (\<lambda>ks k. if k \<in> set ks then ks else ks @ [k]) (ks @ [x]) xs
            = ks @ x # rev (remdups (filter (\<lambda>y. y \<noteq> x)
                                       (rev (filter (\<lambda>y. y \<notin> set ks) xs))))"
      using Cons [of "ks @ [x]"] by (simp add: rev_filter)
    also have "x # rev (remdups (filter (\<lambda>y. y \<noteq> x) (rev (filter (\<lambda>y. y \<notin> set ks) xs))))
            = rev (remdups (rev (filter (\<lambda>y. y \<notin> set ks) xs) @ [x]))"
      by (simp add: remdups_snoc)
    finally show ?thesis
      using False by simp
  qed
qed

lemma keys_seedCategories:
  "map fst (seedCategories cs m) =
     foldl (\<lambda>ks k. if k \<in> set ks then ks else ks @ [k]) (map fst m)
       (map cat_id (filter (\<lambda>c. cat_id c \<noteq> [] \<and> cat_name c \<noteq> []) cs))"
  by (induction cs m rule: seedCategories.induct) (auto simp: update_keys)

lemma keys_addSpending: "map fst (addSpending e m) = map fst m"
  by (auto simp: addSpending_def update_keys split: amount_value.splits option.splits
      dest!: map_of_SomeD intro: rev_image_eqI)

lemma map_of_addSpending:
  "map_of (addSpending e m) cid =
     map_option
       (\<lambda>info. if category_id e = cid \<and> category_id e \<noteq> []
                   \<and> (\<exists>a. amount e = Amount a \<and> 0 < a)
                   \<and> type e \<in> {Some Need, Some Want}
                then info\<lparr> value' := value' info
                              + (case amount e of Amount a \<Rightarrow> a | NotNumber \<Rightarrow> 0) \<rparr>
                else info)
       (map_of m cid)"
  by (cases "map_of m cid")
     (auto simp: addSpending_def spendingTypes_def update_conv' not_le
        split: amount_value.splits option.splits)

lemma foldl_add_to_slice:
  "foldl (\<lambda>info a. info\<lparr> value' := value' info + a \<rparr>) info as =
     info\<lparr> value' := foldl (+) (value' info) as \<rparr>"
  by (induction as arbitrary: info) simp_all

lemma map_of_fold_slices:
  assumes step: "\<And>e m. map_of (f e m) k =
                   map_option (\<lambda>info. if P e then info\<lparr> value' := value' info + g e \<rparr> else info)
                     (map_of m k)"
  shows "map_of (foldl (\<lambda>m e. f e m) m es) k =
           map_option (\<lambda>info. info\<lparr> value' := foldl (+) (value' info) (map g (filter P es)) \<rparr>)
             (map_of m k)"
proof (induction es arbitrary: m)
  case Nil
  then show ?case by (cases "map_of m k") simp_all
next
  case (Cons e es)
  show ?case
    by (cases "map_of m k"; cases "P e") (simp_all add: Cons step)
qed

lemma keys_fold_addSpending: "map fst (foldl (\<lambda>m e. addSpending e m) m es) = map fst m"
  by (induction es arbitrary: m) (simp_all add: keys_addSpending)

lemma map_of_spendingMapOf:
  "map_of (spendingMapOf es cs) cid =
     (if filter (\<lambda>c. cat_id c = cid \<and> cat_id c \<noteq> [] \<and> cat_name c \<noteq> []) cs = [] then None
      else Some \<lparr> name = cat_name (last (filter
                          (\<lambda>c. cat_id c = cid \<and> cat_id c \<noteq> [] \<and> cat_name c \<noteq> []) cs)),
                  value' = foldl (+) 0
                     (map (\<lambda>e. case amount e of Amount a \<Rightarrow> a | NotNumber \<Rightarrow> 0)
                        (filter (\<lambda>e. category_id e = cid \<and> category_id e \<noteq> []
                                      \<and> (\<exists>a. amount e = Amount a \<and> 0 < a)
                                      \<and> type e \<in> {Some Need, Some Want}) es)) \<rparr>)"
proof -
  have "map_of (foldl (\<lambda>m e. addSpending e m) m es) cid =
          map_option
            (\<lambda>info. info\<lparr> value' := foldl (+) (value' info)
               (map (\<lambda>e. case amount e of Amount a \<Rightarrow> a | NotNumber \<Rightarrow> 0)
                  (filter (\<lambda>e. category_id e = cid \<and> category_id e \<noteq> []
                                \<and> (\<exists>a. amount e = Amount a \<and> 0 < a)
                                \<and> type e \<in> {Some Need, Some Want}) es)) \<rparr>)
            (map_of m cid)" for m
    by (rule map_of_fold_slices) (rule map_of_addSpending)
  then show ?thesis
    by (simp add: spendingMapOf_def map_of_seedCategories)
qed

lemma keys_spendingMapOf:
  "map fst (spendingMapOf es cs) =
     rev (remdups (rev (map cat_id (filter (\<lambda>c. cat_id c \<noteq> [] \<and> cat_name c \<noteq> []) cs))))"
  by (simp add: spendingMapOf_def keys_fold_addSpending keys_seedCategories first_occurrences)

lemma seedCategories_zero:
  "list_all (\<lambda>p. value' (snd p) = 0) m \<Longrightarrow> list_all (\<lambda>p. value' (snd p) = 0) (seedCategories cs m)"
proof (induction cs m rule: seedCategories.induct)
  case (1 m)
  then show ?case by simp
next
  case (2 cat cats m)
  have "list_all (\<lambda>p. value' (snd p) = 0) (AList.update k \<lparr> name = n, value' = 0 \<rparr> m)" for k n
    using "2.prems" by (induction m) auto
  with 2 show ?case by simp
qed

lemma no_expenses_no_slices:
  "filter (\<lambda>item. 0 < value' item) (map snd (spendingMapOf [] cs)) = []"
proof -
  have "list_all (\<lambda>p. value' (snd p) = 0) (seedCategories cs [])"
    by (rule seedCategories_zero) simp
  then show ?thesis
    by (auto simp: spendingMapOf_def filter_empty_conv list_all_iff)
qed

lemma no_categories_no_buckets: "spendingMapOf es [] = []"
proof -
  have "foldl (\<lambda>m e. addSpending e m) [] es = []"
    by (induction es) (simp_all add: addSpending_def split: amount_value.splits)
  then show ?thesis by (simp add: spendingMapOf_def)
qed

lemma categorySpendingData_unfold:
  "categorySpendingData es cs =
     Array_sort (\<lambda>a b. value' b - value' a \<le> 0)
       (filter (\<lambda>item. 0 < value' item) (map snd (spendingMapOf es cs)))"
proof (cases "es = [] \<or> cs = []")
  case True
  then show ?thesis
    by (auto simp: categorySpendingData_def no_expenses_no_slices no_categories_no_buckets
          Array_sort_def)
next
  case False
  then show ?thesis
    by (simp only: categorySpendingData_def if_False)
qed

lemma totalSpending_foldl: "totalSpending xs = foldl (+) 0 (map value' xs)"
  by (simp add: totalSpending_def foldl_map)

lemma categorySpendingData_descending:
  fixes es :: "('n::{plus,minus,zero,linorder}) expense list"
  assumes sub: "\<forall>x y :: 'n. (y - x \<le> 0) = (y \<le> x)"
  shows "sorted_wrt (\<lambda>a b. value' b \<le> value' a) (categorySpendingData es cs)"
    and "filter (\<lambda>item. value' item = v) (categorySpendingData es cs) =
           filter (\<lambda>item. value' item = v)
             (filter (\<lambda>item. 0 < value' item) (map snd (spendingMapOf es cs)))"
proof -
  have cmp: "(\<lambda>a b :: 'n slice. value' b - value' a \<le> 0) = (\<lambda>a b. value' b \<le> value' a)"
    using sub by (simp add: fun_eq_iff)
  show "sorted_wrt (\<lambda>a b. value' b \<le> value' a) (categorySpendingData es cs)"
    unfolding categorySpendingData_unfold cmp
    by (rule sorted_Array_sort) auto
  show "filter (\<lambda>item. value' item = v) (categorySpendingData es cs) =
           filter (\<lambda>item. value' item = v)
             (filter (\<lambda>item. 0 < value' item) (map snd (spendingMapOf es cs)))"
    unfolding categorySpendingData_unfold cmp
    by (rule stable_Array_sort) simp
qed

text \<open>
  C5. The map built by the aggregation holds, for a category id, an entry exactly when
  some category of the list has that id with a non-empty id and name; the entry's total
  is the sum, added up from 0 in the order of the expense list, of the amounts of the
  expenses that carry this (non-empty) category id, a positive numeric amount and the
  type Need or Want. The keys stand in the order of their first occurrence in the
  category list. The emitted list is a permutation of the entries with a positive
  total, and the total spending is the sum of the emitted totals, added up from 0 in
  the emitted order. In an arithmetic whose subtraction decides the order (the
  comparator's \<open>y - x\<close> is not positive exactly when \<open>y \<le> x\<close>; so it is for doubles,
  where a difference has the sign of the order and the \<open>NaN\<close> of two infinite totals
  counts as 0), the emitted list is descending by total and keeps entries of equal
  total in the order of the map.
\<close>

theorem category_spending_aggregation:
  fixes expenses :: "('n::{plus,minus,zero,linorder}) expense list"
  shows
  "map_of (spendingMapOf expenses categories) cid =
     (if filter (\<lambda>c. cat_id c = cid \<and> cat_id c \<noteq> [] \<and> cat_name c \<noteq> []) categories = []
      then None
      else Some \<lparr> name = cat_name (last (filter
                          (\<lambda>c. cat_id c = cid \<and> cat_id c \<noteq> [] \<and> cat_name c \<noteq> []) categories)),
                  value' = foldl (+) 0
                     (map (\<lambda>e. case amount e of Amount a \<Rightarrow> a | NotNumber \<Rightarrow> 0)
                        (filter (\<lambda>e. category_id e = cid \<and> category_id e \<noteq> []
                                      \<and> (\<exists>a. amount e = Amount a \<and> 0 < a)
                                      \<and> type e \<in> {Some Need, Some Want}) expenses)) \<rparr>)
   \<and> map fst (spendingMapOf expenses categories) =
       rev (remdups (rev (map cat_id
         (filter (\<lambda>c. cat_id c \<noteq> [] \<and> cat_name c \<noteq> []) categories))))
   \<and> mset (categorySpendingData expenses categories) =
       mset (filter (\<lambda>item. 0 < value' item) (map snd (spendingMapOf expenses categories)))
   \<and> totalSpending (categorySpendingData expenses categories) =
       foldl (+) 0 (map value' (categorySpendingData expenses categories))
   \<and> ((\<forall>x y :: 'n. (y - x \<le> 0) = (y \<le> x)) \<longrightarrow>
        sorted_wrt (\<lambda>a b. value' b \<le> value' a) (categorySpendingData expenses categories)
        \<and> (\<forall>v. filter (\<lambda>item. value' item = v) (categorySpendingData expenses categories) =
                 filter (\<lambda>item. value' item = v)
                   (filter (\<lambda>item. 0 < value' item)
                      (map snd (spendingMapOf expenses categories)))))"
proof (intro conjI impI allI)
  show "mset (categorySpendingData expenses categories) =
       mset (filter (\<lambda>item. 0 < value' item) (map snd (spendingMapOf expenses categories)))"
    by (simp only: categorySpendingData_unfold mset_Array_sort)
qed (simp_all add: map_of_spendingMapOf keys_spendingMapOf totalSpending_foldl
       categorySpendingData_descending)

lemma rat_subtraction_decides_order: "\<forall>x y :: rat. (y - x \<le> 0) = (y \<le> x)"
  by simp

lemma category_spending_example:
  "categorySpendingData
     [\<lparr> category_id = ''c3'', amount = Amount (50 :: rat), type = Some Want,
        timestamp = ''2024-01-01'' \<rparr>,
      \<lparr> category_id = ''c1'', amount = Amount 100, type = Some Need, timestamp = ''2024-01-02'' \<rparr>,
      \<lparr> category_id = ''c1'', amount = Amount 50, type = Some Income, timestamp = ''2024-01-02'' \<rparr>,
      \<lparr> category_id = ''c2'', amount = Amount 125, type = Some Need, timestamp = ''2024-01-02'' \<rparr>,
      \<lparr> category_id = ''c1'', amount = Amount 25, type = Some Want, timestamp = ''2024-01-03'' \<rparr>]
     [\<lparr> cat_id = ''c1'', cat_name = ''Food'' \<rparr>, \<lparr> cat_id = ''c2'', cat_name = ''Rent'' \<rparr>,
      \<lparr> cat_id = ''c3'', cat_name = ''Fun'' \<rparr>]
   = [\<lparr> name = ''Food'', value' = 125 \<rparr>, \<lparr> name = ''Rent'', value' = 125 \<rparr>,
      \<lparr> name = ''Fun'', value' = 50 \<rparr>]"
  by (simp add: categorySpendingData_def spendingMapOf_def addSpending_def spendingTypes_def
        Array_sort_def)

theorem category_spending_aggregation_witness:
  "(\<forall>x y :: rat. (y - x \<le> 0) = (y \<le> x))
   \<and> sorted_wrt (\<lambda>a b. value' b \<le> value' a)
       (categorySpendingData
         [\<lparr> category_id = ''c3'', amount = Amount (50 :: rat), type = Some Want,
            timestamp = ''2024-01-01'' \<rparr>,
          \<lparr> category_id = ''c1'', amount = Amount 100, type = Some Need,
            timestamp = ''2024-01-02'' \<rparr>,
          \<lparr> category_id = ''c1'', amount = Amount 50, type = Some Income,
            timestamp = ''2024-01-02'' \<rparr>,
          \<lparr> category_id = ''c2'', amount = Amount 125, type = Some Need,
            timestamp = ''2024-01-02'' \<rparr>,
          \<lparr> category_id = ''c1'', amount = Amount 25, type = Some Want,
            timestamp = ''2024-01-03'' \<rparr>]
         [\<lparr> cat_id = ''c1'', cat_name = ''Food'' \<rparr>, \<lparr> cat_id = ''c2'', cat_name = ''Rent'' \<rparr>,
          \<lparr> cat_id = ''c3'', cat_name = ''Fun'' \<rparr>])
   \<and> map name
       (categorySpendingData
         [\<lparr> category_id = ''c3'', amount = Amount (50 :: rat), type = Some Want,
            timestamp = ''2024-01-01'' \<rparr>,
          \<lparr> category_id = ''c1'', amount = Amount 100, type = Some Need,
            timestamp = ''2024-01-02'' \<rparr>,
          \<lparr> category_id = ''c1'', amount = Amount 50, type = Some Income,
            timestamp = ''2024-01-02'' \<rparr>,
          \<lparr> category_id = ''c2'', amount = Amount 125, type = Some Need,
            timestamp = ''2024-01-02'' \<rparr>,
          \<lparr> category_id = ''c1'', amount = Amount 25, type = Some Want,
            timestamp = ''2024-01-03'' \<rparr>]
         [\<lparr> cat_id = ''c1'', cat_name = ''Food'' \<rparr>, \<lparr> cat_id = ''c2'', cat_name = ''Rent'' \<rparr>,
          \<lparr> cat_id = ''c3'', cat_name = ''Fun'' \<rparr>])
     = [''Food'', ''Rent'', ''Fun'']"
proof -
  have "sorted_wrt (\<lambda>a b. value' b \<le> value' a)
       (categorySpendingData
         [\<lparr> category_id = ''c3'', amount = Amount (50 :: rat), type = Some Want,
            timestamp = ''2024-01-01'' \<rparr>,
          \<lparr> category_id = ''c1'', amount = Amount 100, type = Some Need,
            timestamp = ''2024-01-02'' \<rparr>,
          \<lparr> category_id = ''c1'', amount = Amount 50, type = Some Income,
            timestamp = ''2024-01-02'' \<rparr>,
          \<lparr> category_id = ''c2'', amount = Amount 125, type = Some Need,
            timestamp = ''2024-01-02'' \<rparr>,
          \<lparr> category_id = ''c1'', amount = Amount 25, type = Some Want,
            timestamp = ''2024-01-03'' \<rparr>]
         [\<lparr> cat_id = ''c1'', cat_name = ''Food'' \<rparr>, \<lparr> cat_id = ''c2'', cat_name = ''Rent'' \<rparr>,
          \<lparr> cat_id = ''c3'', cat_name = ''Fun'' \<rparr>])"
    using category_spending_aggregation
            [of "[\<lparr> category_id = ''c3'', amount = Amount (50 :: rat), type = Some Want,
                    timestamp = ''2024-01-01'' \<rparr>,
                  \<lparr> category_id = ''c1'', amount = Amount 100, type = Some Need,
                    timestamp = ''2024-01-02'' \<rparr>,
                  \<lparr> category_id = ''c1'', amount = Amount 50, type = Some Income,
                    timestamp = ''2024-01-02'' \<rparr>,
                  \<lparr> category_id = ''c2'', amount = Amount 125, type = Some Need,
                    timestamp = ''2024-01-02'' \<rparr>,
                  \<lparr> category_id = ''c1'', amount = Amount 25, type = Some Want,
                    timestamp = ''2024-01-03'' \<rparr>]"
                "[\<lparr> cat_id = ''c1'', cat_name = ''Food'' \<rparr>,
                  \<lparr> cat_id = ''c2'', cat_name = ''Rent'' \<rparr>,
                  \<lparr> cat_id = ''c3'', cat_name = ''Fun'' \<rparr>]" "[]"]
          rat_subtraction_decides_order
    by blast
  then show ?thesis
    by (simp add: category_spending_example)
qed

text \<open>
  C10. With no categories, or with no expenses, the aggregation returns the empty list
  and the total spending is 0; with no categories the map itself has no bucket, whatever
  the expenses.
\<close>

theorem empty_inputs_empty_aggregation:
  "categorySpendingData expenses [] = []
   \<and> totalSpending (categorySpendingData expenses []) = 0
   \<and> spendingMapOf expenses [] = []
   \<and> categorySpendingData [] categories = []
   \<and> totalSpending (categorySpendingData [] categories) = 0"
  by (simp add: categorySpendingData_def totalSpending_def no_categories_no_buckets)

subsection \<open>The daily trend\<close>

lemma map_of_addDaily:
  "map_of (addDaily e m) d =
     (if timestamp e \<noteq> [] \<and> (\<exists>a. amount e = Amount a \<and> 0 < a)
         \<and> type e \<in> {Some Need, Some Want} \<and> take 10 (timestamp e) = d
      then Some ((case map_of m d of None \<Rightarrow> 0 | Some v \<Rightarrow> v)
                 + (case amount e of Amount a \<Rightarrow> a | NotNumber \<Rightarrow> 0))
      else map_of m d)"
  by (auto simp: addDaily_def spendingTypes_def substring0_def update_conv' Let_def not_le
      split: amount_value.splits)

lemma distinct_addDaily: "distinct (map fst m) \<Longrightarrow> distinct (map fst (addDaily e m))"
  by (auto simp: addDaily_def Let_def distinct_update split: amount_value.splits)

lemma map_of_fold_buckets:
  assumes step: "\<And>e m. map_of (f e m) d =
                   (if P e then Some ((case map_of m d of None \<Rightarrow> 0 | Some v \<Rightarrow> v) + g e)
                    else map_of m d)"
  shows "map_of (foldl (\<lambda>m e. f e m) m es) d =
           (if filter P es = [] then map_of m d
            else Some (foldl (+) (case map_of m d of None \<Rightarrow> 0 | Some v \<Rightarrow> v)
                         (map g (filter P es))))"
proof (induction es arbitrary: m)
  case Nil
  then show ?case by simp
next
  case (Cons e es)
  show ?case
    by (cases "P e") (simp_all add: Cons step split: option.splits)
qed

lemma map_of_fold_addDaily:
  "map_of (foldl (\<lambda>m e. addDaily e m) m es) d =
     (if filter (\<lambda>e. timestamp e \<noteq> [] \<and> (\<exists>a. amount e = Amount a \<and> 0 < a)
                     \<and> type e \<in> {Some Need, Some Want} \<and> take 10 (timestamp e) = d) es = []
      then map_of m d
      else Some (foldl (+) (case map_of m d of None \<Rightarrow> 0 | Some v \<Rightarrow> v)
                   (map (\<lambda>e. case amount e of Amount a \<Rightarrow> a | NotNumber \<Rightarrow> 0)
                      (filter (\<lambda>e. timestamp e \<noteq> [] \<and> (\<exists>a. amount e = Amount a \<and> 0 < a)
                                    \<and> type e \<in> {Some Need, Some Want}
                                    \<and> take 10 (timestamp e) = d) es))))"
  by (rule map_of_fold_buckets) (rule map_of_addDaily)

lemma distinct_fold_addDaily:
  "distinct (map fst m) \<Longrightarrow> distinct (map fst (foldl (\<lambda>m e. addDaily e m) m es))"
  by (induction es arbitrary: m) (simp_all add: distinct_addDaily)

lemma map_of_dailySpendingMapOf:
  "map_of (dailySpendingMapOf es) d =
     (if filter (\<lambda>e. timestamp e \<noteq> [] \<and> (\<exists>a. amount e = Amount a \<and> 0 < a)
                     \<and> type e \<in> {Some Need, Some Want} \<and> take 10 (timestamp e) = d) es = []
      then None
      else Some (foldl (+) 0
                   (map (\<lambda>e. case amount e of Amount a \<Rightarrow> a | NotNumber \<Rightarrow> 0)
                      (filter (\<lambda>e. timestamp e \<noteq> [] \<and> (\<exists>a. amount e = Amount a \<and> 0 < a)
                                    \<and> type e \<in> {Some Need, Some Want}
                                    \<and> take 10 (timestamp e) = d) es))))"
  by (simp add: dailySpendingMapOf_def map_of_fold_addDaily)

lemma keys_dailySpendingMapOf:
  assumes "d \<in> fst ` set (dailySpendingMapOf es)"
  shows "\<exists>e \<in> set es. timestamp e \<noteq> [] \<and> (\<exists>a. amount e = Amount a \<and> 0 < a)
            \<and> type e \<in> {Some Need, Some Want} \<and> take 10 (timestamp e) = d"
proof -
  from assms have "map_of (dailySpendingMapOf es) d \<noteq> None"
    by (simp add: map_of_eq_None_iff)
  then have "filter (\<lambda>e. timestamp e \<noteq> [] \<and> (\<exists>a. amount e = Amount a \<and> 0 < a)
                     \<and> type e \<in> {Some Need, Some Want} \<and> take 10 (timestamp e) = d) es \<noteq> []"
    by (simp add: map_of_dailySpendingMapOf split: if_splits)
  then show ?thesis
    by (simp add: filter_empty_conv)
qed

lemma spendingTrendData_unfold:
  "spendingTrendData newDate es =
     Array_sort (date_le newDate)
       (map (\<lambda>(d, t). \<lparr> date = d, totalAmount = t \<rparr>) (dailySpendingMapOf es))"
  by (simp add: spendingTrendData_def dailySpendingMapOf_def Array_sort_def)

lemma date_le_parsed:
  "newDate (date a) \<noteq> None \<Longrightarrow> newDate (date b) \<noteq> None \<Longrightarrow>
     date_le newDate a b = (the (newDate (date a)) \<le> the (newDate (date b)))"
  by (auto simp: date_le_def)

lemma spendingTrendData_sorted:
  assumes "\<forall>e \<in> set es. timestamp e \<noteq> [] \<and> (\<exists>a. amount e = Amount a \<and> 0 < a)
              \<and> type e \<in> {Some Need, Some Want}
            \<longrightarrow> newDate (take 10 (timestamp e)) \<noteq> None"
  shows "sorted (map (\<lambda>p. the (newDate (date p))) (spendingTrendData newDate es))"
proof -
  let ?xs = "map (\<lambda>(d, t). \<lparr> date = d, totalAmount = t \<rparr>) (dailySpendingMapOf es)"
  have parsed: "newDate (date p) \<noteq> None" if "p \<in> set ?xs" for p
  proof -
    from that have "date p \<in> fst ` set (dailySpendingMapOf es)"
      by (auto intro: rev_image_eqI)
    from keys_dailySpendingMapOf [OF this]
    obtain e where "e \<in> set es" and "timestamp e \<noteq> []"
      and "\<exists>a. amount e = Amount a \<and> 0 < a" and "type e \<in> {Some Need, Some Want}"
      and "take 10 (timestamp e) = date p"
      by blast
    with assms show ?thesis
      by fastforce
  qed
  have "Array_sort (date_le newDate) ?xs
          = Array_sort (\<lambda>a b. the (newDate (date a)) \<le> the (newDate (date b))) ?xs"
    by (rule Array_sort_cong) (simp add: date_le_parsed parsed)
  moreover have "sorted_wrt (\<lambda>a b. the (newDate (date a)) \<le> the (newDate (date b)))
                   (Array_sort (\<lambda>a b. the (newDate (date a)) \<le> the (newDate (date b))) ?xs)"
    by (rule sorted_Array_sort) auto
  ultimately show ?thesis
    by (simp add: spendingTrendData_unfold sorted_map)
qed

text \<open>
  C6, as the code has it. An expense is counted when its timestamp is not empty, its
  amount is a positive number and its type is Need or Want. The daily map holds a
  bucket for the first ten characters of a timestamp exactly when some counted expense
  has them, and the bucket is the sum, added up from 0 in the order of the expense
  list, of the amounts of those expenses; no date has two buckets; the emitted list is
  a permutation of the buckets. When the engine parses the first ten characters of
  every counted timestamp as a date, the emitted list ascends by the parsed date,
  whatever the order of the input.
\<close>

theorem daily_trend_aggregation:
  "map_of (dailySpendingMapOf expenses) d =
     (if filter (\<lambda>e. timestamp e \<noteq> [] \<and> (\<exists>a. amount e = Amount a \<and> 0 < a)
                     \<and> type e \<in> {Some Need, Some Want}
                     \<and> take 10 (timestamp e) = d) expenses = []
      then None
      else Some (foldl (+) 0
                   (map (\<lambda>e. case amount e of Amount a \<Rightarrow> a | NotNumber \<Rightarrow> 0)
                      (filter (\<lambda>e. timestamp e \<noteq> [] \<and> (\<exists>a. amount e = Amount a \<and> 0 < a)
                                    \<and> type e \<in> {Some Need, Some Want}
                                    \<and> take 10 (timestamp e) = d) expenses))))
   \<and> distinct (map fst (dailySpendingMapOf expenses))
   \<and> mset (spendingTrendData newDate expenses) =
       mset (map (\<lambda>(d, t). \<lparr> date = d, totalAmount = t \<rparr>) (dailySpendingMapOf expenses))
   \<and> ((\<forall>e \<in> set expenses.
          timestamp e \<noteq> [] \<and> (\<exists>a. amount e = Amount a \<and> 0 < a)
            \<and> type e \<in> {Some Need, Some Want}
          \<longrightarrow> newDate (take 10 (timestamp e)) \<noteq> None)
       \<longrightarrow> sorted (map (\<lambda>p. the (newDate (date p))) (spendingTrendData newDate expenses)))"
proof (intro conjI impI)
  show "distinct (map fst (dailySpendingMapOf expenses))"
    by (simp add: dailySpendingMapOf_def distinct_fold_addDaily)
  show "mset (spendingTrendData newDate expenses) =
       mset (map (\<lambda>(d, t). \<lparr> date = d, totalAmount = t \<rparr>) (dailySpendingMapOf expenses))"
    by (simp only: spendingTrendData_unfold mset_Array_sort)
qed (simp_all add: map_of_dailySpendingMapOf spendingTrendData_sorted)

lemma parse_2024_01_01: "Date_parse ''2024-01-01'' = Some 1704067200000"
  by code_simp

lemma parse_2024_01_02: "Date_parse ''2024-01-02'' = Some 1704153600000"
  by code_simp

lemma parse_2024_01_03: "Date_parse ''2024-01-03'' = Some 1704240000000"
  by code_simp

lemma parse_not_a_date: "Date_parse ''not-a-date'' = None"
  by (simp add: Date_parse_def test_date_pattern_def isDigit_def)

lemma trend_example:
  "spendingTrendData Date_parse
     [\<lparr> category_id = ''c1'', amount = Amount (10 :: rat), type = Some Need,
        timestamp = ''2024-01-02T10:00:00Z'' \<rparr>,
      \<lparr> category_id = ''c1'', amount = Amount 5, type = Some Want,
        timestamp = ''2024-01-01T09:00:00Z'' \<rparr>]
   = [\<lparr> date = ''2024-01-01'', totalAmount = 5 \<rparr>, \<lparr> date = ''2024-01-02'', totalAmount = 10 \<rparr>]"
  by (simp add: spendingTrendData_def dailySpendingMapOf_def addDaily_def spendingTypes_def
        substring0_def Array_sort_def date_le_def parse_2024_01_01 parse_2024_01_02)

theorem daily_trend_aggregation_witness:
  "Date_parse (take 10 ''2024-01-02T10:00:00Z'') \<noteq> None
   \<and> Date_parse (take 10 ''2024-01-01T09:00:00Z'') \<noteq> None
   \<and> sorted (map (\<lambda>p. the (Date_parse (date p)))
       (spendingTrendData Date_parse
          [\<lparr> category_id = ''c1'', amount = Amount (10 :: rat), type = Some Need,
             timestamp = ''2024-01-02T10:00:00Z'' \<rparr>,
           \<lparr> category_id = ''c1'', amount = Amount 5, type = Some Want,
             timestamp = ''2024-01-01T09:00:00Z'' \<rparr>]))
   \<and> map date
       (spendingTrendData Date_parse
          [\<lparr> category_id = ''c1'', amount = Amount (10 :: rat), type = Some Need,
             timestamp = ''2024-01-02T10:00:00Z'' \<rparr>,
           \<lparr> category_id = ''c1'', amount = Amount 5, type = Some Want,
             timestamp = ''2024-01-01T09:00:00Z'' \<rparr>])
     = [''2024-01-01'', ''2024-01-02'']"
proof -
  have "sorted (map (\<lambda>p. the (Date_parse (date p)))
       (spendingTrendData Date_parse
          [\<lparr> category_id = ''c1'', amount = Amount (10 :: rat), type = Some Need,
             timestamp = ''2024-01-02T10:00:00Z'' \<rparr>,
           \<lparr> category_id = ''c1'', amount = Amount 5, type = Some Want,
             timestamp = ''2024-01-01T09:00:00Z'' \<rparr>]))"
    using daily_trend_aggregation
            [of "[\<lparr> category_id = ''c1'', amount = Amount (10 :: rat), type = Some Need,
                    timestamp = ''2024-01-02T10:00:00Z'' \<rparr>,
                  \<lparr> category_id = ''c1'', amount = Amount 5, type = Some Want,
                    timestamp = ''2024-01-01T09:00:00Z'' \<rparr>]" "[]" Date_parse]
    by (simp add: parse_2024_01_01 parse_2024_01_02)
  then show ?thesis
    by (simp add: trend_example parse_2024_01_01 parse_2024_01_02)
qed

text \<open>
  C6 as stated fails. The code counts every expense whose timestamp is not empty; the
  comparator is \<open>NaN\<close> against a key that is no date, so such a key compares as equal
  to both neighbours and nothing moves: the bucket of 3 January stays before the bucket
  of 1 January.
\<close>

theorem trend_with_unparsed_date_not_ascending:
  "spendingTrendData Date_parse
     [\<lparr> category_id = ''c1'', amount = Amount (5 :: rat), type = Some Need,
        timestamp = ''2024-01-03T10:00:00Z'' \<rparr>,
      \<lparr> category_id = ''c1'', amount = Amount 7, type = Some Need,
        timestamp = ''not-a-date'' \<rparr>,
      \<lparr> category_id = ''c1'', amount = Amount 9, type = Some Want,
        timestamp = ''2024-01-01T09:00:00Z'' \<rparr>]
   = [\<lparr> date = ''2024-01-03'', totalAmount = 5 \<rparr>,
      \<lparr> date = ''not-a-date'', totalAmount = 7 \<rparr>,
      \<lparr> date = ''2024-01-01'', totalAmount = 9 \<rparr>]
   \<and> Date_parse ''2024-01-03'' = Some 1704240000000
   \<and> Date_parse ''2024-01-01'' = Some 1704067200000
   \<and> Date_parse ''not-a-date'' = None"
  by (simp add: spendingTrendData_def dailySpendingMapOf_def addDaily_def spendingTypes_def
        substring0_def Array_sort_def date_le_def parse_2024_01_01 parse_2024_01_03
        parse_not_a_date)

section \<open>Properties of the full-range fetch\<close>

lemma fetchLoop_done:
  "\<not> hasMore st \<Longrightarrow> fetchLoop g start end' st = Some (st, False)"
  by (subst fetchLoop.simps) simp

lemma fetchLoop_throws:
  "hasMore st \<Longrightarrow> g (pageFilters start end' (currentSkip st)) = Throws \<Longrightarrow>
     fetchLoop g start end' st =
       Some (st\<lparr> calls := calls st @ [pageFilters start end' (currentSkip st)] \<rparr>, True)"
  by (subst fetchLoop.simps) simp

lemma fetchLoop_unexpected:
  "hasMore st \<Longrightarrow> g (pageFilters start end' (currentSkip st)) = Returns r \<Longrightarrow>
   expensesToAdd r = None \<Longrightarrow>
     fetchLoop g start end' st =
       Some (onUnexpected (st\<lparr> calls := calls st @ [pageFilters start end' (currentSkip st)] \<rparr>),
             False)"
  by (subst fetchLoop.simps) (simp add: fetchLoop_done onUnexpected_def)

lemma fetchLoop_short:
  "hasMore st \<Longrightarrow> g (pageFilters start end' (currentSkip st)) = Returns r \<Longrightarrow>
   expensesToAdd r = Some page \<Longrightarrow> int (length page) < DATA_FETCH_LIMIT \<Longrightarrow>
     fetchLoop g start end' st =
       Some (st\<lparr> calls := calls st @ [pageFilters start end' (currentSkip st)],
                 fetchedExpenses := fetchedExpenses st @ page,
                 hasMore := False \<rparr>, False)"
  by (subst fetchLoop.simps) (simp add: fetchLoop_done onPage_def)

lemma fetchLoop_full:
  "hasMore st \<Longrightarrow> g (pageFilters start end' (currentSkip st)) = Returns r \<Longrightarrow>
   expensesToAdd r = Some page \<Longrightarrow> \<not> int (length page) < DATA_FETCH_LIMIT \<Longrightarrow>
     fetchLoop g start end' st =
       fetchLoop g start end'
         (st\<lparr> calls := calls st @ [pageFilters start end' (currentSkip st)],
              fetchedExpenses := fetchedExpenses st @ page,
              currentSkip := currentSkip st + DATA_FETCH_LIMIT \<rparr>)"
  by (subst fetchLoop.simps) (simp add: onPage_def)

text \<open>After \<open>k\<close> full pages the loop stands at skip \<open>500 * k\<close> with the pages appended.\<close>

lemma fetchLoop_full_pages:
  assumes "hasMore st"
    and "\<forall>i<k. \<exists>r. g (pageFilters start end' (currentSkip st + DATA_FETCH_LIMIT * int i)) = Returns r
                   \<and> expensesToAdd r = Some (pages i)
                   \<and> \<not> int (length (pages i)) < DATA_FETCH_LIMIT"
  shows "fetchLoop g start end' st =
           fetchLoop g start end'
             (st\<lparr> calls := calls st @
                     map (\<lambda>i. pageFilters start end' (currentSkip st + DATA_FETCH_LIMIT * int i)) [0..<k],
                  fetchedExpenses := fetchedExpenses st @ concat (map pages [0..<k]),
                  currentSkip := currentSkip st + DATA_FETCH_LIMIT * int k \<rparr>)"
  using assms
proof (induction k)
  case 0
  then show ?case by simp
next
  case (Suc k)
  let ?st = "st\<lparr> calls := calls st @
                     map (\<lambda>i. pageFilters start end' (currentSkip st + DATA_FETCH_LIMIT * int i)) [0..<k],
                  fetchedExpenses := fetchedExpenses st @ concat (map pages [0..<k]),
                  currentSkip := currentSkip st + DATA_FETCH_LIMIT * int k \<rparr>"
  from Suc.prems obtain r where
    r: "g (pageFilters start end' (currentSkip st + DATA_FETCH_LIMIT * int k)) = Returns r"
       "expensesToAdd r = Some (pages k)" "\<not> int (length (pages k)) < DATA_FETCH_LIMIT"
    by blast
  have "fetchLoop g start end' st = fetchLoop g start end' ?st"
    using Suc by simp
  also have "\<dots> = fetchLoop g start end'
       (?st\<lparr> calls := calls ?st @ [pageFilters start end' (currentSkip ?st)],
             fetchedExpenses := fetchedExpenses ?st @ pages k,
             currentSkip := currentSkip ?st + DATA_FETCH_LIMIT \<rparr>)"
    by (rule fetchLoop_full [where r = r]) (use Suc.prems r in simp_all)
  finally show ?case
    by (simp add: algebra_simps)
qed


lemma fetchLoop_from_start:
  assumes "\<forall>i<k. \<exists>r. g (pageFilters start end' (500 * int i)) = Returns r
                   \<and> expensesToAdd r = Some (pages i) \<and> 500 \<le> length (pages i)"
  shows "fetchLoop g start end'
           \<lparr> fetchedExpenses = [], currentSkip = 0, hasMore = True, ui = v, calls = [] \<rparr> =
         fetchLoop g start end'
           \<lparr> fetchedExpenses = concat (map pages [0..<k]), currentSkip = 500 * int k,
             hasMore = True, ui = v,
             calls = map (\<lambda>i. pageFilters start end' (500 * int i)) [0..<k] \<rparr>"
proof -
  have "\<forall>i<k. \<exists>r. g (pageFilters start end'
            (currentSkip \<lparr> fetchedExpenses = [], currentSkip = 0, hasMore = True, ui = v,
                           calls = [] \<rparr> + DATA_FETCH_LIMIT * int i)) = Returns r
          \<and> expensesToAdd r = Some (pages i) \<and> \<not> int (length (pages i)) < DATA_FETCH_LIMIT"
    using assms by (simp add: DATA_FETCH_LIMIT_def not_less)
  from fetchLoop_full_pages [OF _ this] show ?thesis
    by (simp add: DATA_FETCH_LIMIT_def)
qed

lemma fetch_run_short:
  assumes range: "\<not> invalidRange newDate start end'"
    and full: "\<forall>i<k. \<exists>r. g (pageFilters start end' (500 * int i)) = Returns r
                   \<and> expensesToAdd r = Some (pages i) \<and> 500 \<le> length (pages i)"
    and short: "\<exists>r. g (pageFilters start end' (500 * int k)) = Returns r
                   \<and> expensesToAdd r = Some (pages k) \<and> length (pages k) < 500"
  shows "fetchAllExpensesForRange newDate g start end' u =
           Some (map (\<lambda>i. pageFilters start end' (500 * int i)) [0..<Suc k],
                 u\<lparr> toasts := toasts u @
                       [if concat (map pages [0..<Suc k]) = []
                        then ToastInfo ''No expenses found for the selected period.''
                        else ToastSuccess (''Workspaceed ''
                               @ String_of_int (int (length (concat (map pages [0..<Suc k]))))
                               @ '' expenses.'')],
                    allExpenses := concat (map pages [0..<Suc k]),
                    isLoading := False \<rparr>)"
proof -
  from short obtain r where
    r: "g (pageFilters start end' (500 * int k)) = Returns r" "expensesToAdd r = Some (pages k)"
       "length (pages k) < 500"
    by blast
  let ?st = "\<lparr> fetchedExpenses = concat (map pages [0..<k]), currentSkip = 500 * int k,
               hasMore = True, ui = u\<lparr> isLoading := True \<rparr>,
               calls = map (\<lambda>i. pageFilters start end' (500 * int i)) [0..<k] \<rparr>"
  have nonempty: "concat (map pages [0..<k]) \<noteq> []" if "0 < k"
  proof -
    from that full have "500 \<le> length (pages 0)" by blast
    then have "pages 0 \<noteq> []" by auto
    with that show ?thesis by (auto simp: upt_conv_Cons)
  qed
  have "fetchLoop g start end'
          \<lparr> fetchedExpenses = [], currentSkip = 0, hasMore = True, ui = u\<lparr> isLoading := True \<rparr>,
            calls = [] \<rparr> = fetchLoop g start end' ?st"
    by (rule fetchLoop_from_start [OF full])
  also have "\<dots> =
          Some (?st\<lparr> calls := calls ?st @ [pageFilters start end' (currentSkip ?st)],
                     fetchedExpenses := fetchedExpenses ?st @ pages k,
                     hasMore := False \<rparr>, False)"
    by (rule fetchLoop_short [where r = r]) (use r in \<open>simp_all add: DATA_FETCH_LIMIT_def\<close>)
  finally have loop: "fetchLoop g start end'
          \<lparr> fetchedExpenses = [], currentSkip = 0, hasMore = True, ui = u\<lparr> isLoading := True \<rparr>,
            calls = [] \<rparr> =
          Some (?st\<lparr> calls := calls ?st @ [pageFilters start end' (currentSkip ?st)],
                     fetchedExpenses := fetchedExpenses ?st @ pages k,
                     hasMore := False \<rparr>, False)" .
  show ?thesis
    using range nonempty
    by (cases "k = 0") (simp_all add: fetchAllExpensesForRange_def loop afterLoop_def Let_def)
qed

lemma fetch_run_throws:
  assumes range: "\<not> invalidRange newDate start end'"
    and full: "\<forall>i<k. \<exists>r. g (pageFilters start end' (500 * int i)) = Returns r
                   \<and> expensesToAdd r = Some (pages i) \<and> 500 \<le> length (pages i)"
    and throws: "g (pageFilters start end' (500 * int k)) = Throws"
  shows "fetchAllExpensesForRange newDate g start end' u =
           Some (map (\<lambda>i. pageFilters start end' (500 * int i)) [0..<Suc k],
                 u\<lparr> toasts := toasts u @ [ToastError ''Failed to fetch expenses for the report.''],
                    allExpenses := [],
                    isLoading := False \<rparr>)"
proof -
  let ?st = "\<lparr> fetchedExpenses = concat (map pages [0..<k]), currentSkip = 500 * int k,
               hasMore = True, ui = u\<lparr> isLoading := True \<rparr>,
               calls = map (\<lambda>i. pageFilters start end' (500 * int i)) [0..<k] \<rparr>"
  have "fetchLoop g start end'
          \<lparr> fetchedExpenses = [], currentSkip = 0, hasMore = True, ui = u\<lparr> isLoading := True \<rparr>,
            calls = [] \<rparr> = fetchLoop g start end' ?st"
    by (rule fetchLoop_from_start [OF full])
  also have "\<dots> =
          Some (?st\<lparr> calls := calls ?st @ [pageFilters start end' (currentSkip ?st)] \<rparr>, True)"
    by (rule fetchLoop_throws) (use throws in simp_all)
  finally have loop: "fetchLoop g start end'
          \<lparr> fetchedExpenses = [], currentSkip = 0, hasMore = True, ui = u\<lparr> isLoading := True \<rparr>,
            calls = [] \<rparr> =
          Some (?st\<lparr> calls := calls ?st @ [pageFilters start end' (currentSkip ?st)] \<rparr>, True)" .
  show ?thesis
    using range
    by (simp add: fetchAllExpensesForRange_def loop afterThrow_def)
qed

lemma fetch_run_unexpected:
  assumes range: "\<not> invalidRange newDate start end'"
    and full: "\<forall>i<k. \<exists>r. g (pageFilters start end' (500 * int i)) = Returns r
                   \<and> expensesToAdd r = Some (pages i) \<and> 500 \<le> length (pages i)"
    and bad: "\<exists>r. g (pageFilters start end' (500 * int k)) = Returns r \<and> expensesToAdd r = None"
  shows "fetchAllExpensesForRange newDate g start end' u =
           Some (map (\<lambda>i. pageFilters start end' (500 * int i)) [0..<Suc k],
                 u\<lparr> toasts := toasts u @
                       (if k = 0
                        then [ToastError
                                ''Failed to fetch expenses. Unexpected data format from server.'',
                              ToastInfo ''No expenses found for the selected period.'']
                        else [ToastWarning
                                ''Received unexpected data format on subsequent fetch page. Data might be incomplete.'',
                              ToastSuccess (''Workspaceed ''
                                @ String_of_int (int (length (concat (map pages [0..<k]))))
                                @ '' expenses.'')]),
                    allExpenses := concat (map pages [0..<k]),
                    isLoading := False \<rparr>)"
proof -
  from bad obtain r where
    r: "g (pageFilters start end' (500 * int k)) = Returns r" "expensesToAdd r = None"
    by blast
  let ?st = "\<lparr> fetchedExpenses = concat (map pages [0..<k]), currentSkip = 500 * int k,
               hasMore = True, ui = u\<lparr> isLoading := True \<rparr>,
               calls = map (\<lambda>i. pageFilters start end' (500 * int i)) [0..<k] \<rparr>"
  have nonempty: "concat (map pages [0..<k]) \<noteq> []" if "0 < k"
  proof -
    from that full have "500 \<le> length (pages 0)" by blast
    then have "pages 0 \<noteq> []" by auto
    with that show ?thesis by (auto simp: upt_conv_Cons)
  qed
  have "fetchLoop g start end'
          \<lparr> fetchedExpenses = [], currentSkip = 0, hasMore = True, ui = u\<lparr> isLoading := True \<rparr>,
            calls = [] \<rparr> = fetchLoop g start end' ?st"
    by (rule fetchLoop_from_start [OF full])
  also have "\<dots> =
          Some (onUnexpected
                  (?st\<lparr> calls := calls ?st @ [pageFilters start end' (currentSkip ?st)] \<rparr>), False)"
    by (rule fetchLoop_unexpected [where r = r]) (use r in simp_all)
  finally have loop: "fetchLoop g start end'
          \<lparr> fetchedExpenses = [], currentSkip = 0, hasMore = True, ui = u\<lparr> isLoading := True \<rparr>,
            calls = [] \<rparr> =
          Some (onUnexpected
                  (?st\<lparr> calls := calls ?st @ [pageFilters start end' (currentSkip ?st)] \<rparr>), False)" .
  show ?thesis
    using range nonempty
    by (cases "k = 0")
       (simp_all add: fetchAllExpensesForRange_def loop afterLoop_def onUnexpected_def Let_def)
qed

lemma january_is_a_valid_range: "\<not> invalidRange Date_parse ''2024-01-01'' ''2024-01-31''"
  by code_simp

lemma String_of_int_1137: "String_of_int 1137 = ''1137''"
  by code_simp

lemma String_of_int_500: "String_of_int 500 = ''500''"
  by code_simp

text \<open>
  C2. Let the guard accept the range: both dates are non-empty and the engine's parser
  \<open>newDate\<close>, whatever it is, does not put the start after the end. When the calls
  with skip 0, 500, ..., 500 (k - 1) each return a page of at least 500 items and the
  call with skip 500 k returns a shorter page, the fetch ends: it has issued exactly
  the k + 1 calls with skip 0, 500, ..., 500 k, in that order, and the expenses it
  stores are the pages concatenated in the order of the requests. For pages of sizes
  500, 500, 137 these are three calls with skip 0, 500, 1000 and 1137 items; for an
  empty first page, one call and the empty list.
\<close>

theorem full_range_fetch_until_short_page:
  "\<not> invalidRange newDate start end'
   \<and> (\<forall>i<k. \<exists>r. getExpenses (pageFilters start end' (500 * int i)) = Returns r
               \<and> expensesToAdd r = Some (pages i) \<and> 500 \<le> length (pages i))
   \<and> (\<exists>r. getExpenses (pageFilters start end' (500 * int k)) = Returns r
            \<and> expensesToAdd r = Some (pages k) \<and> length (pages k) < 500)
   \<longrightarrow> fetchAllExpensesForRange newDate getExpenses start end' u =
         Some (map (\<lambda>i. pageFilters start end' (500 * int i)) [0..<Suc k],
               u\<lparr> toasts := toasts u @
                     [if concat (map pages [0..<Suc k]) = []
                      then ToastInfo ''No expenses found for the selected period.''
                      else ToastSuccess (''Workspaceed ''
                             @ String_of_int (int (length (concat (map pages [0..<Suc k]))))
                             @ '' expenses.'')],
                  allExpenses := concat (map pages [0..<Suc k]),
                  isLoading := False \<rparr>)"
  by (intro impI, elim conjE, rule fetch_run_short)

theorem full_range_fetch_until_short_page_witness:
  "fetchAllExpensesForRange Date_parse
     (\<lambda>filters.
        if filters = pageFilters ''2024-01-01'' ''2024-01-31'' 0
        then Returns (BareArray (replicate 500
               \<lparr> category_id = ''c1'', amount = Amount (10 :: rat), type = Some Need,
                 timestamp = ''2024-01-05T08:00:00Z'' \<rparr>))
        else if filters = pageFilters ''2024-01-01'' ''2024-01-31'' 500
        then Returns (ItemsObject (replicate 500
               \<lparr> category_id = ''c2'', amount = Amount (20 :: rat), type = Some Want,
                 timestamp = ''2024-01-06T08:00:00Z'' \<rparr>))
        else if filters = pageFilters ''2024-01-01'' ''2024-01-31'' 1000
        then Returns (BareArray (replicate 137
               \<lparr> category_id = ''c3'', amount = Amount (30 :: rat), type = Some Income,
                 timestamp = ''2024-01-07T08:00:00Z'' \<rparr>))
        else Throws)
     ''2024-01-01'' ''2024-01-31'' \<lparr> toasts = [], allExpenses = [], isLoading = False \<rparr>
   = Some ([pageFilters ''2024-01-01'' ''2024-01-31'' 0,
            pageFilters ''2024-01-01'' ''2024-01-31'' 500,
            pageFilters ''2024-01-01'' ''2024-01-31'' 1000],
           \<lparr> toasts = [ToastSuccess ''Workspaceed 1137 expenses.''],
             allExpenses =
               replicate 500 \<lparr> category_id = ''c1'', amount = Amount (10 :: rat), type = Some Need,
                               timestamp = ''2024-01-05T08:00:00Z'' \<rparr>
               @ replicate 500 \<lparr> category_id = ''c2'', amount = Amount (20 :: rat), type = Some Want,
                                 timestamp = ''2024-01-06T08:00:00Z'' \<rparr>
               @ replicate 137 \<lparr> category_id = ''c3'', amount = Amount (30 :: rat), type = Some Income,
                                 timestamp = ''2024-01-07T08:00:00Z'' \<rparr>,
             isLoading = False \<rparr>)
   \<and> fetchAllExpensesForRange Date_parse (\<lambda>filters. Returns (BareArray ([] :: rat expense list)))
       ''2024-01-01'' ''2024-01-31'' \<lparr> toasts = [], allExpenses = [], isLoading = False \<rparr>
   = Some ([pageFilters ''2024-01-01'' ''2024-01-31'' 0],
           \<lparr> toasts = [ToastInfo ''No expenses found for the selected period.''],
             allExpenses = [], isLoading = False \<rparr>)"
proof (intro conjI)
  let ?e1 = "\<lparr> category_id = ''c1'', amount = Amount (10 :: rat), type = Some Need,
               timestamp = ''2024-01-05T08:00:00Z'' \<rparr>"
  let ?e2 = "\<lparr> category_id = ''c2'', amount = Amount (20 :: rat), type = Some Want,
               timestamp = ''2024-01-06T08:00:00Z'' \<rparr>"
  let ?e3 = "\<lparr> category_id = ''c3'', amount = Amount (30 :: rat), type = Some Income,
               timestamp = ''2024-01-07T08:00:00Z'' \<rparr>"
  let ?g = "\<lambda>filters.
        if filters = pageFilters ''2024-01-01'' ''2024-01-31'' 0
        then Returns (BareArray (replicate 500 ?e1))
        else if filters = pageFilters ''2024-01-01'' ''2024-01-31'' 500
        then Returns (ItemsObject (replicate 500 ?e2))
        else if filters = pageFilters ''2024-01-01'' ''2024-01-31'' 1000
        then Returns (BareArray (replicate 137 ?e3))
        else Throws"
  let ?pages = "\<lambda>i::nat. if i = 0 then replicate 500 ?e1
                        else if i = 1 then replicate 500 ?e2 else replicate 137 ?e3"
  let ?u = "\<lparr> toasts = [], allExpenses = [] :: rat expense list, isLoading = False \<rparr>"
  have full: "\<forall>i<2. \<exists>r. ?g (pageFilters ''2024-01-01'' ''2024-01-31'' (500 * int i)) = Returns r
               \<and> expensesToAdd r = Some (?pages i) \<and> 500 \<le> length (?pages i)"
  proof (intro allI impI)
    fix i :: nat
    assume "i < 2"
    then consider "i = 0" | "i = 1" by linarith
    then show "\<exists>r. ?g (pageFilters ''2024-01-01'' ''2024-01-31'' (500 * int i)) = Returns r
               \<and> expensesToAdd r = Some (?pages i) \<and> 500 \<le> length (?pages i)"
      by cases (simp_all add: pageFilters_def)
  qed
  have short: "\<exists>r. ?g (pageFilters ''2024-01-01'' ''2024-01-31'' (500 * int 2)) = Returns r
               \<and> expensesToAdd r = Some (?pages 2) \<and> length (?pages 2) < 500"
    by (simp add: pageFilters_def)
  have "fetchAllExpensesForRange Date_parse ?g ''2024-01-01'' ''2024-01-31'' ?u =
         Some (map (\<lambda>i. pageFilters ''2024-01-01'' ''2024-01-31'' (500 * int i)) [0..<Suc 2],
               ?u\<lparr> toasts := toasts ?u @
                     [if concat (map ?pages [0..<Suc 2]) = []
                      then ToastInfo ''No expenses found for the selected period.''
                      else ToastSuccess (''Workspaceed ''
                             @ String_of_int (int (length (concat (map ?pages [0..<Suc 2]))))
                             @ '' expenses.'')],
                  allExpenses := concat (map ?pages [0..<Suc 2]),
                  isLoading := False \<rparr>)"
    by (rule mp [OF full_range_fetch_until_short_page
                      [of Date_parse "''2024-01-01''" "''2024-01-31''" 2 ?g ?pages ?u]])
       (intro conjI january_is_a_valid_range full short)
  then show "fetchAllExpensesForRange Date_parse ?g ''2024-01-01'' ''2024-01-31'' ?u
   = Some ([pageFilters ''2024-01-01'' ''2024-01-31'' 0,
            pageFilters ''2024-01-01'' ''2024-01-31'' 500,
            pageFilters ''2024-01-01'' ''2024-01-31'' 1000],
           \<lparr> toasts = [ToastSuccess ''Workspaceed 1137 expenses.''],
             allExpenses = replicate 500 ?e1 @ replicate 500 ?e2 @ replicate 137 ?e3,
             isLoading = False \<rparr>)"
    by (simp add: upt_conv_Cons String_of_int_1137)
next
  let ?u = "\<lparr> toasts = [], allExpenses = [] :: rat expense list, isLoading = False \<rparr>"
  have "fetchAllExpensesForRange Date_parse (\<lambda>filters. Returns (BareArray ([] :: rat expense list)))
          ''2024-01-01'' ''2024-01-31'' ?u =
         Some (map (\<lambda>i. pageFilters ''2024-01-01'' ''2024-01-31'' (500 * int i)) [0..<Suc 0],
               ?u\<lparr> toasts := toasts ?u @
                     [if concat (map (\<lambda>i. []) [0..<Suc 0]) = []
                      then ToastInfo ''No expenses found for the selected period.''
                      else ToastSuccess (''Workspaceed ''
                             @ String_of_int (int (length (concat (map (\<lambda>i. []) [0..<Suc 0]))))
                             @ '' expenses.'')],
                  allExpenses := concat (map (\<lambda>i. []) [0..<Suc 0]),
                  isLoading := False \<rparr>)"
    using full_range_fetch_until_short_page
            [of Date_parse "''2024-01-01''" "''2024-01-31''" 0 "\<lambda>filters. Returns (BareArray ([] :: rat expense list))"
                "\<lambda>i. []" ?u]
          january_is_a_valid_range
    by simp
  then show "fetchAllExpensesForRange Date_parse (\<lambda>filters. Returns (BareArray ([] :: rat expense list)))
       ''2024-01-01'' ''2024-01-31'' ?u
   = Some ([pageFilters ''2024-01-01'' ''2024-01-31'' 0],
           \<lparr> toasts = [ToastInfo ''No expenses found for the selected period.''],
             allExpenses = [], isLoading = False \<rparr>)"
    by simp
qed

text \<open>
  C3, as the code has it. After k full pages on a range that the guard accepts under
  the engine's parser \<open>newDate\<close>: if the next call throws
  (on the first page or on a later one), the fetch halts, the stored expenses are
  cleared and the fetch-failed error is raised; if the next call returns a body without
  an array, the fetch halts, and on the first page the stored expenses are cleared and
  an unexpected-format error is raised, while on a later page the pages accumulated so
  far are stored and a may-be-incomplete warning is raised.
\<close>

theorem full_range_fetch_failure:
  "\<not> invalidRange newDate start end'
   \<and> (\<forall>i<k. \<exists>r. getExpenses (pageFilters start end' (500 * int i)) = Returns r
               \<and> expensesToAdd r = Some (pages i) \<and> 500 \<le> length (pages i))
   \<longrightarrow>
     (getExpenses (pageFilters start end' (500 * int k)) = Throws \<longrightarrow>
        fetchAllExpensesForRange newDate getExpenses start end' u =
          Some (map (\<lambda>i. pageFilters start end' (500 * int i)) [0..<Suc k],
                u\<lparr> toasts := toasts u @ [ToastError ''Failed to fetch expenses for the report.''],
                   allExpenses := [],
                   isLoading := False \<rparr>))
     \<and> ((\<exists>r. getExpenses (pageFilters start end' (500 * int k)) = Returns r
               \<and> expensesToAdd r = None) \<longrightarrow>
        fetchAllExpensesForRange newDate getExpenses start end' u =
          Some (map (\<lambda>i. pageFilters start end' (500 * int i)) [0..<Suc k],
                u\<lparr> toasts := toasts u @
                      (if k = 0
                       then [ToastError
                               ''Failed to fetch expenses. Unexpected data format from server.'',
                             ToastInfo ''No expenses found for the selected period.'']
                       else [ToastWarning
                               ''Received unexpected data format on subsequent fetch page. Data might be incomplete.'',
                             ToastSuccess (''Workspaceed ''
                               @ String_of_int (int (length (concat (map pages [0..<k]))))
                               @ '' expenses.'')]),
                   allExpenses := concat (map pages [0..<k]),
                   isLoading := False \<rparr>))"
  by (intro impI conjI; elim conjE) (rule fetch_run_throws fetch_run_unexpected; assumption)+

text \<open>
  C3 as stated fails: a first page of 500 expenses followed by a request that throws
  leaves no expenses stored and raises the error, not a warning.
\<close>

theorem later_page_failure_discards_data:
  "fetchAllExpensesForRange Date_parse
     (\<lambda>filters.
        if filters = pageFilters ''2024-01-01'' ''2024-01-31'' 0
        then Returns (BareArray (replicate 500
               \<lparr> category_id = ''c1'', amount = Amount (10 :: rat), type = Some Need,
                 timestamp = ''2024-01-05T08:00:00Z'' \<rparr>))
        else Throws)
     ''2024-01-01'' ''2024-01-31'' \<lparr> toasts = [], allExpenses = [], isLoading = False \<rparr>
   = Some ([pageFilters ''2024-01-01'' ''2024-01-31'' 0,
            pageFilters ''2024-01-01'' ''2024-01-31'' 500],
           \<lparr> toasts = [ToastError ''Failed to fetch expenses for the report.''],
             allExpenses = [], isLoading = False \<rparr>)"
proof -
  let ?e1 = "\<lparr> category_id = ''c1'', amount = Amount (10 :: rat), type = Some Need,
               timestamp = ''2024-01-05T08:00:00Z'' \<rparr>"
  let ?g = "\<lambda>filters.
        if filters = pageFilters ''2024-01-01'' ''2024-01-31'' 0
        then Returns (BareArray (replicate 500 ?e1))
        else Throws"
  have full: "\<forall>i<1. \<exists>r. ?g (pageFilters ''2024-01-01'' ''2024-01-31'' (500 * int i)) = Returns r
               \<and> expensesToAdd r = Some ((\<lambda>i. replicate 500 ?e1) i)
               \<and> 500 \<le> length ((\<lambda>i. replicate 500 ?e1) i)"
    by simp
  have throws: "?g (pageFilters ''2024-01-01'' ''2024-01-31'' (500 * int 1)) = Throws"
    by (simp add: pageFilters_def)
  from fetch_run_throws [OF january_is_a_valid_range full throws] show ?thesis
    by (simp add: upt_conv_Cons)
qed

theorem full_range_fetch_failure_witness:
  "fetchAllExpensesForRange Date_parse
     (\<lambda>filters.
        if filters = pageFilters ''2024-01-01'' ''2024-01-31'' 0
        then Returns (BareArray (replicate 500
               \<lparr> category_id = ''c1'', amount = Amount (10 :: rat), type = Some Need,
                 timestamp = ''2024-01-05T08:00:00Z'' \<rparr>))
        else Returns Unexpected)
     ''2024-01-01'' ''2024-01-31'' \<lparr> toasts = [], allExpenses = [], isLoading = False \<rparr>
   = Some ([pageFilters ''2024-01-01'' ''2024-01-31'' 0,
            pageFilters ''2024-01-01'' ''2024-01-31'' 500],
           \<lparr> toasts = [ToastWarning
                         ''Received unexpected data format on subsequent fetch page. Data might be incomplete.'',
                       ToastSuccess ''Workspaceed 500 expenses.''],
             allExpenses = replicate 500
               \<lparr> category_id = ''c1'', amount = Amount (10 :: rat), type = Some Need,
                 timestamp = ''2024-01-05T08:00:00Z'' \<rparr>,
             isLoading = False \<rparr>)
   \<and> fetchAllExpensesForRange Date_parse (\<lambda>filters. Throws) ''2024-01-01'' ''2024-01-31''
       \<lparr> toasts = [],
         allExpenses = [\<lparr> category_id = ''c9'', amount = Amount (1 :: rat), type = Some Need,
                          timestamp = ''2023-12-31T08:00:00Z'' \<rparr>],
         isLoading = False \<rparr>
   = Some ([pageFilters ''2024-01-01'' ''2024-01-31'' 0],
           \<lparr> toasts = [ToastError ''Failed to fetch expenses for the report.''],
             allExpenses = [], isLoading = False \<rparr>)"
proof (intro conjI)
  let ?e1 = "\<lparr> category_id = ''c1'', amount = Amount (10 :: rat), type = Some Need,
               timestamp = ''2024-01-05T08:00:00Z'' \<rparr>"
  let ?g = "\<lambda>filters.
        if filters = pageFilters ''2024-01-01'' ''2024-01-31'' 0
        then Returns (BareArray (replicate 500 ?e1))
        else Returns Unexpected"
  let ?u = "\<lparr> toasts = [], allExpenses = [] :: rat expense list, isLoading = False \<rparr>"
  have full: "\<forall>i<1. \<exists>r. ?g (pageFilters ''2024-01-01'' ''2024-01-31'' (500 * int i)) = Returns r
               \<and> expensesToAdd r = Some ((\<lambda>i. replicate 500 ?e1) i)
               \<and> 500 \<le> length ((\<lambda>i. replicate 500 ?e1) i)"
    by simp
  have bad: "\<exists>r. ?g (pageFilters ''2024-01-01'' ''2024-01-31'' (500 * int 1)) = Returns r
               \<and> expensesToAdd r = None"
    by (simp add: pageFilters_def)
  have "fetchAllExpensesForRange Date_parse ?g ''2024-01-01'' ''2024-01-31'' ?u =
          Some (map (\<lambda>i. pageFilters ''2024-01-01'' ''2024-01-31'' (500 * int i)) [0..<Suc 1],
                ?u\<lparr> toasts := toasts ?u @
                      (if (1::nat) = 0
                       then [ToastError
                               ''Failed to fetch expenses. Unexpected data format from server.'',
                             ToastInfo ''No expenses found for the selected period.'']
                       else [ToastWarning
                               ''Received unexpected data format on subsequent fetch page. Data might be incomplete.'',
                             ToastSuccess (''Workspaceed ''
                               @ String_of_int (int (length (concat
                                   (map (\<lambda>i. replicate 500 ?e1) [0..<1]))))
                               @ '' expenses.'')]),
                   allExpenses := concat (map (\<lambda>i. replicate 500 ?e1) [0..<1]),
                   isLoading := False \<rparr>)"
    by (rule mp [OF conjunct2 [OF mp [OF full_range_fetch_failure
                  [of Date_parse "''2024-01-01''" "''2024-01-31''" 1 ?g
                      "\<lambda>i. replicate 500 ?e1" ?u]]]])
       (intro conjI january_is_a_valid_range full, rule bad)
  then show "fetchAllExpensesForRange Date_parse ?g ''2024-01-01'' ''2024-01-31'' ?u
   = Some ([pageFilters ''2024-01-01'' ''2024-01-31'' 0,
            pageFilters ''2024-01-01'' ''2024-01-31'' 500],
           \<lparr> toasts = [ToastWarning
                         ''Received unexpected data format on subsequent fetch page. Data might be incomplete.'',
                       ToastSuccess ''Workspaceed 500 expenses.''],
             allExpenses = replicate 500 ?e1,
             isLoading = False \<rparr>)"
    by (simp add: upt_conv_Cons String_of_int_500)
next
  let ?u = "\<lparr> toasts = [],
         allExpenses = [\<lparr> category_id = ''c9'', amount = Amount (1 :: rat), type = Some Need,
                          timestamp = ''2023-12-31T08:00:00Z'' \<rparr>],
         isLoading = False \<rparr>"
  from full_range_fetch_failure
         [of Date_parse "''2024-01-01''" "''2024-01-31''" 0 "\<lambda>filters. Throws" "\<lambda>i. []" ?u]
       january_is_a_valid_range
  show "fetchAllExpensesForRange Date_parse (\<lambda>filters. Throws) ''2024-01-01'' ''2024-01-31'' ?u
   = Some ([pageFilters ''2024-01-01'' ''2024-01-31'' 0],
           \<lparr> toasts = [ToastError ''Failed to fetch expenses for the report.''],
             allExpenses = [], isLoading = False \<rparr>)"
    by simp
qed

end
